theory Spec2Isabelle
  imports Complex_Main "HOL-Library.Word"
begin

unbundle bit_operations_syntax

section \<open>Data model (color.h)\<close>

text \<open>
  The enumeration \<^verbatim>\<open>enum color_type\<close>, in declaration order, with both sentinels.
\<close>

datatype color_type =
    COLOR_NONE
  | COLOR_RGB8
  | COLOR_RGB
  | COLOR_LINEAR_RGB
  | COLOR_HSL
  | COLOR_HSV
  | COLOR_YUV
  | COLOR_YCBCR
  | COLOR_YDBDR
  | COLOR_YIQ
  | COLOR_XYZ
  | COLOR_XYY
  | COLOR_LAB
  | COLOR_LUV
  | COLOR_LCHAB
  | COLOR_LCHUV
  | COLOR_LSHUV
  | COLOR_DUMMY_END

text \<open>The numeric value of an enumerator, used where the source indexes a table by it.\<close>

primrec type_index :: "color_type \<Rightarrow> nat" where
  "type_index COLOR_NONE = 0"
| "type_index COLOR_RGB8 = 1"
| "type_index COLOR_RGB = 2"
| "type_index COLOR_LINEAR_RGB = 3"
| "type_index COLOR_HSL = 4"
| "type_index COLOR_HSV = 5"
| "type_index COLOR_YUV = 6"
| "type_index COLOR_YCBCR = 7"
| "type_index COLOR_YDBDR = 8"
| "type_index COLOR_YIQ = 9"
| "type_index COLOR_XYZ = 10"
| "type_index COLOR_XYY = 11"
| "type_index COLOR_LAB = 12"
| "type_index COLOR_LUV = 13"
| "type_index COLOR_LCHAB = 14"
| "type_index COLOR_LCHUV = 15"
| "type_index COLOR_LSHUV = 16"
| "type_index COLOR_DUMMY_END = 17"

text \<open>\<^verbatim>\<open>enum color_extra\<close>: the matrix selector in bits 0-1 and the range bit 2.\<close>

definition COLOR_YUV_MAT_REC601 :: "8 word" where
  "COLOR_YUV_MAT_REC601 = 0"

definition COLOR_YUV_MAT_REC709 :: "8 word" where
  "COLOR_YUV_MAT_REC709 = 1"

definition COLOR_YUV_MAT_SMPTE240M :: "8 word" where
  "COLOR_YUV_MAT_SMPTE240M = 2"

definition COLOR_YUV_MAT_FCC :: "8 word" where
  "COLOR_YUV_MAT_FCC = 3"

definition COLOR_YUV_MAT_MASK :: "8 word" where
  "COLOR_YUV_MAT_MASK = 3"

definition COLOR_YCBCR_FULL_RANGE :: "8 word" where
  "COLOR_YCBCR_FULL_RANGE = 4"

text \<open>
  The anonymous union of \<^verbatim>\<open>struct color\<close> holds either three bytes (RGB8, YCbCr) or
  three doubles (every other space), always in the same three slots; the member names
  differ per space, the slots do not.

  Doubles are modelled as real numbers, and each edge as the exact arithmetic the source
  writes down. Two things follow. Where the source divides by a payload value that is
  zero (\<^verbatim>\<open>color_Luv_to_XYZ\<close>, \<^verbatim>\<open>color_LCHuv_to_LSHuv\<close>, the saturation of
  \<^verbatim>\<open>color_RGB_to_HSV\<close>) the code produces an infinity or a NaN and the model the
  value 0 of HOL's division: payload values of the model mean nothing there. And the
  payload of the model carries no rounding error. Rounding to binary64 is written out
  only in the two places where a statement below depends on it: the table index of
  \<^verbatim>\<open>finish_HSL_to_RGB\<close>, which decides an assertion, and the double-precision
  renderings of the three Lab edges at the end of the CIE section.
\<close>

datatype payload = B3 "8 word" "8 word" "8 word" | D3 real real real

record color =
  type :: color_type
  extra :: "8 word"
  payload :: payload

text \<open>
  Every \<^verbatim>\<open>assert\<close> of the source is an error value of the model. \<open>Union_misread\<close>
  stands for reading the union through a member of the other width, which the source
  cannot detect.
\<close>

datatype error =
    Assert_type color_type
  | Assert_flags_differ color_type
  | Assert_flags_set color_type
  | Assert_hue_idx
  | Assert_new_type
  | Assert_cur_type
  | Assert_proxy_type
  | Assert_func_null
  | Assert_step_type
  | Union_misread

type_synonym conversion_func = "color \<Rightarrow> 8 word \<Rightarrow> error + color"

section \<open>Constants and libm\<close>

definition COLOR_REF_X :: real where "COLOR_REF_X = 31271 / 32902"
definition COLOR_REF_Xr :: real where "COLOR_REF_Xr = 32902 / 31271"
definition COLOR_REF_Z :: real where "COLOR_REF_Z = 35827 / 32902"
definition COLOR_REF_Zr :: real where "COLOR_REF_Zr = 32902 / 35827"
definition COLOR_REF_U13 :: real where "COLOR_REF_U13 = 813046 / 316141"
definition COLOR_REF_V13 :: real where "COLOR_REF_V13 = 1924767 / 316141"

definition rgb_to_yuv :: "real list list" where
  "rgb_to_yuv =
    [ [0.299, 0.587, 0.114, -32591/221500, -63983/221500, -72201/140200, -7011/70100, 0],
      [0.2126, 0.7152, 0.0722, -115867/1159750, -194892/579875, -54981/98425, -44403/787400, 0],
      [0.212, 0.701, 0.087, -11554/114125, -76409/228250, -86223/157600, -10701/157600, 0],
      [0.3, 0.59, 0.11, -327/2225, -6431/22250, -7257/14000, -1353/14000, 0] ]"

definition yuv_to_rgb :: "real list list" where
  "yuv_to_rgb =
    [ [701/615, -25251/63983, -209599/361005, 443/218],
      [3937/3075, -1674679/7795680, -4185031/10996200, 4639/2180],
      [788/615, -79431/305636, -167056/431115, 913/436],
      [140/123, -4895/12862, -1400/2419, 445/218] ]"

text \<open>
  \<^verbatim>\<open>pow\<close> of libm; the source calls it with a positive base only, where it is
  \<open>powr\<close>. \<^verbatim>\<open>atan2\<close> of libm by its quadrants.
\<close>

definition pow :: "real \<Rightarrow> real \<Rightarrow> real" where
  "pow x y = x powr y"

definition atan2 :: "real \<Rightarrow> real \<Rightarrow> real" where
  "atan2 y x =
     (if 0 < x then arctan (y / x)
      else if x < 0 then (if 0 \<le> y then arctan (y / x) + pi else arctan (y / x) - pi)
      else if 0 < y then pi / 2
      else if y < 0 then - (pi / 2)
      else 0)"

text \<open>The C conversion of a double to \<^verbatim>\<open>int\<close> truncates towards zero.\<close>

definition to_int :: "real \<Rightarrow> int" where
  "to_int x = (if 0 \<le> x then \<lfloor>x\<rfloor> else \<lceil>x\<rceil>)"

definition to_u8 :: "real \<Rightarrow> 8 word" where
  "to_u8 x = word_of_int (to_int x)"

definition of_u8 :: "8 word \<Rightarrow> real" where
  "of_u8 b = real (unat b)"

text \<open>
  Rounding of a real number to the nearest binary64 value, ties to the even significand:
  53 significant bits, exponents down to the subnormal range. A result beyond the
  largest double, which IEEE arithmetic turns into an infinity, is outside this model.
  The four arithmetic operations of doubles round the exact result.
\<close>

definition round_even :: "real \<Rightarrow> int" where
  "round_even y =
     (let f = \<lfloor>y\<rfloor>; d = y - of_int f
      in if d < 1 / 2 then f
         else if 1 / 2 < d then f + 1
         else if even f then f else f + 1)"

definition fl :: "real \<Rightarrow> real" where
  "fl x =
     (if x = 0 then 0
      else (let e = max \<lfloor>log 2 \<bar>x\<bar>\<rfloor> (- 1022) - 52
            in of_int (round_even (x * 2 powr (- of_int e))) * 2 powr (of_int e)))"

definition fadd :: "real \<Rightarrow> real \<Rightarrow> real" where
  "fadd a b = fl (a + b)"

definition fsub :: "real \<Rightarrow> real \<Rightarrow> real" where
  "fsub a b = fl (a - b)"

definition fmul :: "real \<Rightarrow> real \<Rightarrow> real" where
  "fmul a b = fl (a * b)"

definition fdiv :: "real \<Rightarrow> real \<Rightarrow> real" where
  "fdiv a b = fl (a / b)"

text \<open>
  The ternary \<^verbatim>\<open>x < 0.0 ? 0 : x > 255.0 ? 255 : (uint8_t)x\<close> that the quantising edges
  write out for each channel.
\<close>

definition clamp_u8 :: "real \<Rightarrow> 8 word" where
  "clamp_u8 x = (if x < 0 then 0 else if x > 255 then 255 else to_u8 x)"

section \<open>Edges out of RGB8\<close>

definition color_RGB8_to_RGB :: conversion_func where
  "color_RGB8_to_RGB c extra' =
     (if type c \<noteq> COLOR_RGB8 then Inl (Assert_type COLOR_RGB8)
      else case payload c of
        D3 _ _ _ \<Rightarrow> Inl Union_misread
      | B3 r g b \<Rightarrow>
          Inr (c\<lparr>type := COLOR_RGB,
                 payload := D3 (of_u8 r * (1 / 255)) (of_u8 g * (1 / 255)) (of_u8 b * (1 / 255))\<rparr>))"

definition rgb8_to_linear :: "8 word \<Rightarrow> real" where
  "rgb8_to_linear c =
     (if 11 \<le> c then pow (of_u8 c * (40 / 10761) + 11 / 211) 2.4 else of_u8 c * (5 / 16473))"

definition color_RGB8_to_LinearRGB :: conversion_func where
  "color_RGB8_to_LinearRGB c extra' =
     (if type c \<noteq> COLOR_RGB8 then Inl (Assert_type COLOR_RGB8)
      else case payload c of
        D3 _ _ _ \<Rightarrow> Inl Union_misread
      | B3 r g b \<Rightarrow>
          Inr (c\<lparr>type := COLOR_LINEAR_RGB,
                 payload := D3 (rgb8_to_linear r) (rgb8_to_linear g) (rgb8_to_linear b)\<rparr>))"

section \<open>Edges out of RGB\<close>

definition color_RGB_to_RGB8 :: conversion_func where
  "color_RGB_to_RGB8 c extra' =
     (if type c \<noteq> COLOR_RGB then Inl (Assert_type COLOR_RGB)
      else case payload c of
        B3 _ _ _ \<Rightarrow> Inl Union_misread
      | D3 R G B \<Rightarrow>
          Inr (c\<lparr>type := COLOR_RGB8,
                 payload := B3 (clamp_u8 (R * 255 + 0.5)) (clamp_u8 (G * 255 + 0.5))
                               (clamp_u8 (B * 255 + 0.5))\<rparr>))"

definition rgb_to_linear :: "real \<Rightarrow> real" where
  "rgb_to_linear c =
     (if c > 0.0031308 * 12.92 then pow (c * (1 / 1.055) + 0.055 / 1.055) 2.4
      else c * (1 / 12.92))"

definition color_RGB_to_LinearRGB :: conversion_func where
  "color_RGB_to_LinearRGB c extra' =
     (if type c \<noteq> COLOR_RGB then Inl (Assert_type COLOR_RGB)
      else case payload c of
        B3 _ _ _ \<Rightarrow> Inl Union_misread
      | D3 R G B \<Rightarrow>
          Inr (c\<lparr>type := COLOR_LINEAR_RGB,
                 payload := D3 (rgb_to_linear R) (rgb_to_linear G) (rgb_to_linear B)\<rparr>))"

text \<open>
  The hue expression shared, textually, by \<^verbatim>\<open>color_RGB_to_HSL\<close> and
  \<^verbatim>\<open>color_RGB_to_HSV\<close>.
\<close>

definition rgb_hue :: "real \<Rightarrow> real \<Rightarrow> real \<Rightarrow> real \<Rightarrow> real \<Rightarrow> real" where
  "rgb_hue R G B mx delta =
     (if mx = R then (G - B) / delta
      else if mx = G then (B - R) / delta + 2
      else (R - G) / delta + 4)"

definition rgb_min :: "real \<Rightarrow> real \<Rightarrow> real \<Rightarrow> real" where
  "rgb_min R G B = (let mn = (if R < G then R else G) in if B < mn then B else mn)"

definition rgb_max :: "real \<Rightarrow> real \<Rightarrow> real \<Rightarrow> real" where
  "rgb_max R G B = (let mx = (if R > G then R else G) in if B > mx then B else mx)"

definition color_RGB_to_HSL :: conversion_func where
  "color_RGB_to_HSL c extra' =
     (if type c \<noteq> COLOR_RGB then Inl (Assert_type COLOR_RGB)
      else case payload c of
        B3 _ _ _ \<Rightarrow> Inl Union_misread
      | D3 R G B \<Rightarrow>
          (let mn = rgb_min R G B;
               mx = rgb_max R G B;
               delta = mx - mn;
               L = (mx + mn) * 0.5
           in if \<bar>delta\<bar> > 0
              then Inr (c\<lparr>type := COLOR_HSL,
                     payload := D3 (rgb_hue R G B mx delta)
                                   (if L < 0.5 then delta / (mx + mn) else delta / (2 - mx - mn))
                                   L\<rparr>)
              else Inr (c\<lparr>type := COLOR_HSL, payload := D3 0 0 L\<rparr>)))"

definition color_RGB_to_HSV :: conversion_func where
  "color_RGB_to_HSV c extra' =
     (if type c \<noteq> COLOR_RGB then Inl (Assert_type COLOR_RGB)
      else case payload c of
        B3 _ _ _ \<Rightarrow> Inl Union_misread
      | D3 R G B \<Rightarrow>
          (let mn = rgb_min R G B;
               mx = rgb_max R G B;
               delta = mx - mn
           in if \<bar>delta\<bar> > 0
              then Inr (c\<lparr>type := COLOR_HSV,
                     payload := D3 (rgb_hue R G B mx delta) (delta / mx) mx\<rparr>)
              else Inr (c\<lparr>type := COLOR_HSV, payload := D3 0 0 mx\<rparr>)))"

definition color_RGB_to_YUV :: conversion_func where
  "color_RGB_to_YUV c extra' =
     (if type c \<noteq> COLOR_RGB then Inl (Assert_type COLOR_RGB)
      else case payload c of
        B3 _ _ _ \<Rightarrow> Inl Union_misread
      | D3 R G B \<Rightarrow>
          (let mat = rgb_to_yuv ! unat (extra' AND COLOR_YUV_MAT_MASK)
           in Inr (c\<lparr>type := COLOR_YUV, extra := extra',
                 payload := D3 (R * mat ! 0 + G * mat ! 1 + B * mat ! 2)
                               (R * mat ! 3 + G * mat ! 4 + B * 0.436)
                               (R * 0.615 + G * mat ! 5 + B * mat ! 6)\<rparr>)))"

definition color_RGB_to_YDbDr :: conversion_func where
  "color_RGB_to_YDbDr c extra' =
     (if type c \<noteq> COLOR_RGB then Inl (Assert_type COLOR_RGB)
      else case payload c of
        B3 _ _ _ \<Rightarrow> Inl Union_misread
      | D3 R G B \<Rightarrow>
          Inr (c\<lparr>type := COLOR_YDBDR,
                 payload := D3 (R * (299 / 1000) + G * (587 / 1000) + B * (57 / 500))
                               (R * (-398567 / 886000) + G * (-782471 / 886000) + B * (1333 / 1000))
                               (R * (1333 / 1000) + G * (-782471 / 701000) + B * (-75981 / 350500))\<rparr>))"

definition color_RGB_to_YIQ :: conversion_func where
  "color_RGB_to_YIQ c extra' =
     (if type c \<noteq> COLOR_RGB then Inl (Assert_type COLOR_RGB)
      else case payload c of
        B3 _ _ _ \<Rightarrow> Inl Union_misread
      | D3 R G B \<Rightarrow>
          Inr (c\<lparr>type := COLOR_YIQ,
                 payload := D3 (R * 0.299 + G * 0.587 + B * 0.114)
                               (R * 0.5957 + G * - 0.2744766323826577035751015648
                                 + B * - 0.3212233676173422964248984352)
                               (R * - 0.2114956266791979792324116478 + G * 0.5226
                                 + B * - 0.3111043733208020207675883522)\<rparr>))"

section \<open>Edges out of linear RGB\<close>

definition linear_to_rgb8 :: "real \<Rightarrow> 8 word" where
  "linear_to_rgb8 c =
     (if c \<le> 0 then 0
      else if c \<le> 0.0031308 then word_of_int (to_int (c * 3294.6 + 0.5))
      else if c < 1 then word_of_int (to_int (pow c (1 / 2.4) * 269.025 - (14.025 - 0.5)))
      else 255)"

definition color_LinearRGB_to_RGB8 :: conversion_func where
  "color_LinearRGB_to_RGB8 c extra' =
     (if type c \<noteq> COLOR_LINEAR_RGB then Inl (Assert_type COLOR_LINEAR_RGB)
      else case payload c of
        B3 _ _ _ \<Rightarrow> Inl Union_misread
      | D3 R G B \<Rightarrow>
          Inr (c\<lparr>type := COLOR_RGB8,
                 payload := B3 (linear_to_rgb8 R) (linear_to_rgb8 G) (linear_to_rgb8 B)\<rparr>))"

definition linear_to_rgb :: "real \<Rightarrow> real" where
  "linear_to_rgb c =
     (if c > 0.0031308 then pow c (1 / 2.4) * 1.055 - 0.055 else c * 12.92)"

definition color_LinearRGB_to_RGB :: conversion_func where
  "color_LinearRGB_to_RGB c extra' =
     (if type c \<noteq> COLOR_LINEAR_RGB then Inl (Assert_type COLOR_LINEAR_RGB)
      else case payload c of
        B3 _ _ _ \<Rightarrow> Inl Union_misread
      | D3 R G B \<Rightarrow>
          Inr (c\<lparr>type := COLOR_RGB,
                 payload := D3 (linear_to_rgb R) (linear_to_rgb G) (linear_to_rgb B)\<rparr>))"

definition color_LinearRGB_to_XYZ :: conversion_func where
  "color_LinearRGB_to_XYZ c extra' =
     (if type c \<noteq> COLOR_LINEAR_RGB then Inl (Assert_type COLOR_LINEAR_RGB)
      else case payload c of
        B3 _ _ _ \<Rightarrow> Inl Union_misread
      | D3 R G B \<Rightarrow>
          Inr (c\<lparr>type := COLOR_XYZ,
                 payload := D3 (R * (5067776 / 12288897) + G * (4394405 / 12288897)
                                 + B * (4435075 / 24577794))
                               (R * (871024 / 4096299) + G * (8788810 / 12288897)
                                 + B * (887015 / 12288897))
                               (R * (79184 / 4096299) + G * (4394405 / 36866691)
                                 + B * (70074185 / 73733382))\<rparr>))"

definition xyz_to_lab :: "real \<Rightarrow> real" where
  "xyz_to_lab c = (if c > 216 / 24389 then pow c (1 / 3) else c * (841 / 108) + 4 / 29)"

definition color_LinearRGB_to_Lab :: conversion_func where
  "color_LinearRGB_to_Lab c extra' =
     (if type c \<noteq> COLOR_LINEAR_RGB then Inl (Assert_type COLOR_LINEAR_RGB)
      else case payload c of
        B3 _ _ _ \<Rightarrow> Inl Union_misread
      | D3 R G B \<Rightarrow>
          (let X = xyz_to_lab (R * (10135552 / 23359437) + G * (8788810 / 23359437)
                                + B * (4435075 / 23359437));
               Y = xyz_to_lab (R * (871024 / 4096299) + G * (8788810 / 12288897)
                                + B * (887015 / 12288897));
               Z = xyz_to_lab (R * (158368 / 8920923) + G * (8788810 / 80288307)
                                + B * (70074185 / 80288307))
           in Inr (c\<lparr>type := COLOR_LAB,
                 payload := D3 (Y * 116 - 16) ((X - Y) * 500) ((Y - Z) * 200)\<rparr>)))"

section \<open>Edges out of HSL and HSV\<close>

definition rgb_tbl :: "nat list list" where
  "rgb_tbl = [[0, 2, 1], [2, 0, 1], [1, 0, 2], [1, 2, 0], [2, 1, 0], [0, 1, 2]]"

text \<open>
  \<^verbatim>\<open>finish_HSL_to_RGB\<close> writes the three RGB slots of a value whose tag the caller has
  already set; its \<^verbatim>\<open>assert(idx >= 0 && idx <= 5)\<close> guards the table read. The
  expression that is truncated to \<^verbatim>\<open>idx\<close> is computed as the doubles compute it, each
  operation rounded: over the reals \<open>h + 6\<close> is below 6 for every negative \<open>h\<close>, in
  doubles it is 6 for the small ones, and the assertion fails.
\<close>

definition finish_HSL_to_RGB :: "color \<Rightarrow> real \<Rightarrow> real \<Rightarrow> real \<Rightarrow> error + color" where
  "finish_HSL_to_RGB c h C m =
     (let absh = \<bar>h\<bar>;
          h2 = (if absh \<ge> 2 then of_int \<lfloor>h * 0.5\<rfloor> * - 2 + h - 1
                else if h < 0 then h + 1
                else h - 1);
          h2 = 1 - \<bar>h2\<bar>;
          idx = to_int (if absh \<ge> 6
                        then fadd (fmul (of_int \<lfloor>fmul h (fdiv 1 6)\<rfloor>) (- 6)) h
                        else if h < 0 then fadd h 6
                        else h)
      in if \<not> (idx \<ge> 0 \<and> idx \<le> 5) then Inl Assert_hue_idx
         else
           (let vars = [C + m, m, C * h2 + m]
            in Inr (c\<lparr>payload := D3 (vars ! (rgb_tbl ! nat idx ! 0))
                                     (vars ! (rgb_tbl ! nat idx ! 1))
                                     (vars ! (rgb_tbl ! nat idx ! 2))\<rparr>)))"

definition color_HSL_to_RGB :: conversion_func where
  "color_HSL_to_RGB c extra' =
     (if type c \<noteq> COLOR_HSL then Inl (Assert_type COLOR_HSL)
      else case payload c of
        B3 _ _ _ \<Rightarrow> Inl Union_misread
      | D3 H S L \<Rightarrow>
          (if \<bar>S\<bar> > 0
           then (let C = (1 - \<bar>L * 2 - 1\<bar>) * S;
                     m = C * - 0.5 + L
                 in finish_HSL_to_RGB (c\<lparr>type := COLOR_RGB\<rparr>) H C m)
           else Inr (c\<lparr>type := COLOR_RGB, payload := D3 L L L\<rparr>)))"

definition color_HSV_to_RGB :: conversion_func where
  "color_HSV_to_RGB c extra' =
     (if type c \<noteq> COLOR_HSV then Inl (Assert_type COLOR_HSV)
      else case payload c of
        B3 _ _ _ \<Rightarrow> Inl Union_misread
      | D3 H S V \<Rightarrow>
          (if \<bar>S\<bar> > 0
           then (let C = V * S;
                     m = V - C
                 in finish_HSL_to_RGB (c\<lparr>type := COLOR_RGB\<rparr>) H C m)
           else Inr (c\<lparr>type := COLOR_RGB, payload := D3 V V V\<rparr>)))"

section \<open>Edges out of YUV and YCbCr\<close>

definition color_YUV_to_RGB :: conversion_func where
  "color_YUV_to_RGB c extra' =
     (if type c \<noteq> COLOR_YUV then Inl (Assert_type COLOR_YUV)
      else case payload c of
        B3 _ _ _ \<Rightarrow> Inl Union_misread
      | D3 Y U V \<Rightarrow>
          (let mat = yuv_to_rgb ! unat (extra c AND COLOR_YUV_MAT_MASK)
           in Inr (c\<lparr>type := COLOR_RGB, extra := 0,
                 payload := D3 (Y + V * mat ! 0)
                               (Y + U * mat ! 1 + V * mat ! 2)
                               (Y + U * mat ! 3)\<rparr>)))"

text \<open>
  The self-edge: both transforms in sequence, between the two assertions on the flags.
\<close>

definition color_YUV_to_YUV :: conversion_func where
  "color_YUV_to_YUV c extra' =
     (if type c \<noteq> COLOR_YUV then Inl (Assert_type COLOR_YUV)
      else if \<not> (extra c \<noteq> extra') then Inl (Assert_flags_differ COLOR_YUV)
      else case color_YUV_to_RGB c extra' of
        Inl e \<Rightarrow> Inl e
      | Inr c1 \<Rightarrow>
          (case color_RGB_to_YUV c1 extra' of
             Inl e \<Rightarrow> Inl e
           | Inr c2 \<Rightarrow>
               if \<not> (extra c2 = extra') then Inl (Assert_flags_set COLOR_YUV) else Inr c2))"

definition color_YUV_to_YCbCr :: conversion_func where
  "color_YUV_to_YCbCr c extra' =
     (if type c \<noteq> COLOR_YUV then Inl (Assert_type COLOR_YUV)
      else case (if (extra c AND COLOR_YUV_MAT_MASK) \<noteq> (extra' AND COLOR_YUV_MAT_MASK)
                 then color_YUV_to_YUV c extra' else Inr c) of
        Inl e \<Rightarrow> Inl e
      | Inr c1 \<Rightarrow>
          (case payload c1 of
             B3 _ _ _ \<Rightarrow> Inl Union_misread
           | D3 Y U V \<Rightarrow>
               (case (if extra' AND COLOR_YCBCR_FULL_RANGE \<noteq> 0
                      then (Y * 255 + 0.5, U * (31875 / 109) + 128, V * (8500 / 41) + 128)
                      else (Y * 219 + 16.5, U * (28000 / 109) + 144, V * (22400 / 123) + 144)) of
                  (Y, U, V) \<Rightarrow>
                    Inr (c1\<lparr>type := COLOR_YCBCR, extra := extra',
                           payload := B3 (clamp_u8 Y) (clamp_u8 U) (clamp_u8 V)\<rparr>))))"

definition color_YCbCr_to_YUV :: conversion_func where
  "color_YCbCr_to_YUV c extra' =
     (if type c \<noteq> COLOR_YCBCR then Inl (Assert_type COLOR_YCBCR)
      else case payload c of
        D3 _ _ _ \<Rightarrow> Inl Union_misread
      | B3 y cb cr \<Rightarrow>
          (case (if extra c AND COLOR_YCBCR_FULL_RANGE \<noteq> 0
                 then (of_u8 y * (1 / 255),
                       of_u8 cb * (109 / 31875) - 0.436,
                       of_u8 cr * (41 / 8500) - 0.615)
                 else (of_u8 y * (1 / 219) - 16 / 219,
                       of_u8 cb * (109 / 28000) - 0.558625,
                       of_u8 cr * (123 / 22400) - 0.78796875)) of
             (Y, U, V) \<Rightarrow>
               (let c1 = c\<lparr>type := COLOR_YUV,
                           extra := extra c AND NOT COLOR_YCBCR_FULL_RANGE,
                           payload := D3 Y U V\<rparr>
                in if (extra c1 AND COLOR_YUV_MAT_MASK) \<noteq> (extra' AND COLOR_YUV_MAT_MASK)
                   then color_YUV_to_YUV c1 extra' else Inr c1)))"

definition color_YCbCr_to_YCbCr :: conversion_func where
  "color_YCbCr_to_YCbCr c extra' =
     (if type c \<noteq> COLOR_YCBCR then Inl (Assert_type COLOR_YCBCR)
      else if \<not> (extra c \<noteq> extra') then Inl (Assert_flags_differ COLOR_YCBCR)
      else case color_YCbCr_to_YUV c extra' of
        Inl e \<Rightarrow> Inl e
      | Inr c1 \<Rightarrow>
          (case color_YUV_to_YCbCr c1 extra' of
             Inl e \<Rightarrow> Inl e
           | Inr c2 \<Rightarrow>
               if \<not> (extra c2 = extra') then Inl (Assert_flags_set COLOR_YCBCR) else Inr c2))"

section \<open>Edges out of YDbDr and YIQ\<close>

definition color_YDbDr_to_RGB :: conversion_func where
  "color_YDbDr_to_RGB c extra' =
     (if type c \<noteq> COLOR_YDBDR then Inl (Assert_type COLOR_YDBDR)
      else case payload c of
        B3 _ _ _ \<Rightarrow> Inl Union_misread
      | D3 Y Db Dr \<Rightarrow>
          Inr (c\<lparr>type := COLOR_RGB,
                 payload := D3 (Y + Dr * (701 / 1333))
                               (Y + Db * (-101004 / 782471) + Dr * (-209599 / 782471))
                               (Y + Db * (886 / 1333))\<rparr>))"

definition color_YDbDr_to_YIQ :: conversion_func where
  "color_YDbDr_to_YIQ c extra' =
     (if type c \<noteq> COLOR_YDBDR then Inl (Assert_type COLOR_YDBDR)
      else case payload c of
        B3 _ _ _ \<Rightarrow> Inl Union_misread
      | D3 Y Db Dr \<Rightarrow>
          Inr (c\<lparr>type := COLOR_YIQ,
                 payload := D3 Y
                               (Db * - 0.1780759334211551067290090872
                                 + Dr * 0.3867911188667345780375729105)
                               (Y * (3.155443620884047221646914261 / 10 ^ 30)
                                 + Db * - 0.2742395246410785275938007739
                                 + Dr * - 0.2512094867865302853146089398)\<rparr>))"

definition color_YIQ_to_RGB :: conversion_func where
  "color_YIQ_to_RGB c extra' =
     (if type c \<noteq> COLOR_YIQ then Inl (Assert_type COLOR_YIQ)
      else case payload c of
        B3 _ _ _ \<Rightarrow> Inl Union_misread
      | D3 Y I Q \<Rightarrow>
          Inr (c\<lparr>type := COLOR_RGB,
                 payload := D3 (Y + I * 0.9563000521420394701478042310
                                 + Q * - 0.6209682015704038246103012680)
                               (Y + I * - 0.2720883840788609953919979558
                                 + Q * 0.6473748500336683799608873068)
                               (Y + I * - 1.107173983650687695430619869
                                 + Q * - 1.704732848247478907706673421)\<rparr>))"

definition color_YIQ_to_YDbDr :: conversion_func where
  "color_YIQ_to_YDbDr c extra' =
     (if type c \<noteq> COLOR_YIQ then Inl (Assert_type COLOR_YIQ)
      else case payload c of
        B3 _ _ _ \<Rightarrow> Inl Union_misread
      | D3 Y I Q \<Rightarrow>
          Inr (c\<lparr>type := COLOR_YDBDR,
                 payload := D3 (Y + I * (6.310887241768094443293828522 / 10 ^ 30))
                               (I * - 1.665759503618924038384894227
                                 + Q * - 2.564795583198520749405186986)
                               (Y * (1.009741958682895110927012564 / 10 ^ 28)
                                 + I * 1.818470712561110718554954408
                                 + Q * - 1.180813998136017543802470171)\<rparr>))"

section \<open>CIE edges\<close>

definition color_XYZ_to_LinearRGB :: conversion_func where
  "color_XYZ_to_LinearRGB c extra' =
     (if type c \<noteq> COLOR_XYZ then Inl (Assert_type COLOR_XYZ)
      else case payload c of
        B3 _ _ _ \<Rightarrow> Inl Union_misread
      | D3 X Y Z \<Rightarrow>
          Inr (c\<lparr>type := COLOR_LINEAR_RGB,
                 payload := D3 (X * (641589 / 197960) + Y * (-608687 / 395920)
                                 + Z * (-49353 / 98980))
                               (X * (-42591639 / 43944050) + Y * (82435961 / 43944050)
                                 + Z * (1826061 / 43944050))
                               (X * (49353 / 887015) + Y * (-180961 / 887015)
                                 + Z * (49353 / 46685))\<rparr>))"

definition color_XYZ_to_xyY :: conversion_func where
  "color_XYZ_to_xyY c extra' =
     (if type c \<noteq> COLOR_XYZ then Inl (Assert_type COLOR_XYZ)
      else case payload c of
        B3 _ _ _ \<Rightarrow> Inl Union_misread
      | D3 X Y Z \<Rightarrow>
          (let dv = X + Y + Z
           in if \<bar>dv\<bar> > 0
              then Inr (c\<lparr>type := COLOR_XYY, payload := D3 (X / dv) (Y / dv) Y\<rparr>)
              else Inr (c\<lparr>type := COLOR_XYY, payload := D3 X Y Y\<rparr>)))"

definition color_XYZ_to_Lab :: conversion_func where
  "color_XYZ_to_Lab c extra' =
     (if type c \<noteq> COLOR_XYZ then Inl (Assert_type COLOR_XYZ)
      else case payload c of
        B3 _ _ _ \<Rightarrow> Inl Union_misread
      | D3 X Y Z \<Rightarrow>
          (let X = (if X > 3377268 / 401223439 then pow (X * COLOR_REF_Xr) (1 / 3)
                    else X * (13835291 / 1688634) + 4 / 29);
               Y = (if Y > 216 / 24389 then pow Y (1 / 3) else Y * (841 / 108) + 4 / 29);
               Z = (if Z > 3869316 / 401223439 then pow (Z * COLOR_REF_Zr) (1 / 3)
                    else Z * (13835291 / 1934658) + 4 / 29)
           in Inr (c\<lparr>type := COLOR_LAB,
                 payload := D3 (Y * 116 - 16) ((X - Y) * 500) ((Y - Z) * 200)\<rparr>)))"

definition color_XYZ_to_Luv :: conversion_func where
  "color_XYZ_to_Luv c extra' =
     (if type c \<noteq> COLOR_XYZ then Inl (Assert_type COLOR_XYZ)
      else case payload c of
        B3 _ _ _ \<Rightarrow> Inl Union_misread
      | D3 X Y Z \<Rightarrow>
          (let dv = X + Y * 15 + Z * 3;
               L = (if Y > 216 / 24389 then pow Y (1 / 3) * 116 - 16 else Y * (24389 / 27))
           in case (if \<bar>dv\<bar> > 0 then (X * (1 / dv), Y * (1 / dv)) else (X, Y)) of
                (X, Y) \<Rightarrow>
                  Inr (c\<lparr>type := COLOR_LUV,
                         payload := D3 L ((X * 52 - COLOR_REF_U13) * L)
                                         ((Y * 117 - COLOR_REF_V13) * L)\<rparr>)))"

definition color_xyY_to_XYZ :: conversion_func where
  "color_xyY_to_XYZ c extra' =
     (if type c \<noteq> COLOR_XYY then Inl (Assert_type COLOR_XYY)
      else case payload c of
        B3 _ _ _ \<Rightarrow> Inl Union_misread
      | D3 x y Y \<Rightarrow>
          (if \<bar>y\<bar> > 0
           then (let mul = Y / y
                 in Inr (c\<lparr>type := COLOR_XYZ,
                       payload := D3 (x * mul) Y ((1 - x - y) * mul)\<rparr>))
           else Inr (c\<lparr>type := COLOR_XYZ, payload := D3 0 0 0\<rparr>)))"

definition color_Lab_to_LinearRGB :: conversion_func where
  "color_Lab_to_LinearRGB c extra' =
     (if type c \<noteq> COLOR_LAB then Inl (Assert_type COLOR_LAB)
      else case payload c of
        B3 _ _ _ \<Rightarrow> Inl Union_misread
      | D3 L a b \<Rightarrow>
          (let Y = L * (1 / 116) + 16 / 116;
               X = a * (1 / 500) + Y;
               Z = b * (-1 / 200) + Y;
               X = (if X > 6 / 29 then X * X * X else X * (108 / 841) - 432 / 24389);
               Y = (if L > 8 then Y * Y * Y else L * (27 / 24389));
               Z = (if Z > 6 / 29 then Z * Z * Z else Z * (108 / 841) - 432 / 24389)
           in Inr (c\<lparr>type := COLOR_LINEAR_RGB,
                 payload := D3 (X * (1219569 / 395920) + Y * (-608687 / 395920)
                                 + Z * (-107481 / 197960))
                               (X * (-80960619 / 87888100) + Y * (82435961 / 43944050)
                                 + Z * (3976797 / 87888100))
                               (X * (93813 / 1774030) + Y * (-180961 / 887015)
                                 + Z * (107481 / 93370))\<rparr>)))"

definition color_Lab_to_XYZ :: conversion_func where
  "color_Lab_to_XYZ c extra' =
     (if type c \<noteq> COLOR_LAB then Inl (Assert_type COLOR_LAB)
      else case payload c of
        B3 _ _ _ \<Rightarrow> Inl Union_misread
      | D3 L a b \<Rightarrow>
          (let Y = L * (1 / 116) + 16 / 116;
               X = a * (1 / 500) + Y;
               Z = b * (-1 / 200) + Y
           in Inr (c\<lparr>type := COLOR_XYZ,
                 payload := D3 (if X > 6 / 29 then X * X * X * COLOR_REF_X
                                else X * (1688634 / 13835291) - 6754536 / 401223439)
                               (if L > 8 then Y * Y * Y else L * (27 / 24389))
                               (if Z > 6 / 29 then Z * Z * Z * COLOR_REF_Z
                                else Z * (1934658 / 13835291) - 7738632 / 401223439)\<rparr>)))"

definition color_Lab_to_LCHab :: conversion_func where
  "color_Lab_to_LCHab c extra' =
     (if type c \<noteq> COLOR_LAB then Inl (Assert_type COLOR_LAB)
      else case payload c of
        B3 _ _ _ \<Rightarrow> Inl Union_misread
      | D3 L a b \<Rightarrow>
          Inr (c\<lparr>type := COLOR_LCHAB, payload := D3 L (sqrt (a * a + b * b)) (atan2 b a)\<rparr>))"

definition color_LCHab_to_Lab :: conversion_func where
  "color_LCHab_to_Lab c extra' =
     (if type c \<noteq> COLOR_LCHAB then Inl (Assert_type COLOR_LCHAB)
      else case payload c of
        B3 _ _ _ \<Rightarrow> Inl Union_misread
      | D3 L C h \<Rightarrow>
          Inr (c\<lparr>type := COLOR_LAB, payload := D3 L (cos h * C) (sin h * C)\<rparr>))"

definition color_Luv_to_XYZ :: conversion_func where
  "color_Luv_to_XYZ c extra' =
     (if type c \<noteq> COLOR_LUV then Inl (Assert_type COLOR_LUV)
      else case payload c of
        B3 _ _ _ \<Rightarrow> Inl Union_misread
      | D3 L u v \<Rightarrow>
          (let y = (if L > 8 then (let y = L * (1 / 116) + 16 / 116 in y * y * y)
                    else L * (27 / 24389));
               a = L / (L * COLOR_REF_U13 + u) * (52 / 3) - 1 / 3;
               b = 5 * y;
               cc = (L / (L * COLOR_REF_V13 + v) * 39 - 5) * y;
               x = (cc + b) / (a + 1 / 3);
               z = x * a - b
           in Inr (c\<lparr>type := COLOR_XYZ, payload := D3 x y z\<rparr>)))"

text \<open>
  The two polar Luv edges retag the value and reuse the Lab ones, as the source does.
\<close>

definition color_Luv_to_LCHuv :: conversion_func where
  "color_Luv_to_LCHuv c extra' =
     (if type c \<noteq> COLOR_LUV then Inl (Assert_type COLOR_LUV)
      else case color_Lab_to_LCHab (c\<lparr>type := COLOR_LAB\<rparr>) extra' of
        Inl e \<Rightarrow> Inl e
      | Inr c1 \<Rightarrow> Inr (c1\<lparr>type := COLOR_LCHUV\<rparr>))"

definition color_LCHuv_to_Luv :: conversion_func where
  "color_LCHuv_to_Luv c extra' =
     (if type c \<noteq> COLOR_LCHUV then Inl (Assert_type COLOR_LCHUV)
      else case color_LCHab_to_Lab (c\<lparr>type := COLOR_LCHAB\<rparr>) extra' of
        Inl e \<Rightarrow> Inl e
      | Inr c1 \<Rightarrow> Inr (c1\<lparr>type := COLOR_LUV\<rparr>))"

definition color_LCHuv_to_LSHuv :: conversion_func where
  "color_LCHuv_to_LSHuv c extra' =
     (if type c \<noteq> COLOR_LCHUV then Inl (Assert_type COLOR_LCHUV)
      else case payload c of
        B3 _ _ _ \<Rightarrow> Inl Union_misread
      | D3 L C h \<Rightarrow>
          Inr (c\<lparr>type := COLOR_LSHUV, payload := D3 L (C / L) h\<rparr>))"

definition color_LSHuv_to_LCHuv :: conversion_func where
  "color_LSHuv_to_LCHuv c extra' =
     (if type c \<noteq> COLOR_LSHUV then Inl (Assert_type COLOR_LSHUV)
      else case payload c of
        B3 _ _ _ \<Rightarrow> Inl Union_misread
      | D3 L S h \<Rightarrow>
          Inr (c\<lparr>type := COLOR_LCHUV, payload := D3 L (S * L) h\<rparr>))"

section \<open>The Lab edges in double precision\<close>

text \<open>
  \<^verbatim>\<open>color_LinearRGB_to_XYZ\<close>, \<^verbatim>\<open>color_XYZ_to_Lab\<close> and
  \<^verbatim>\<open>color_LinearRGB_to_Lab\<close> once more, with every constant quotient, product, sum
  and difference rounded to binary64 where the source computes it, in the source's order
  of evaluation and without fused multiply-add. \<^verbatim>\<open>pow\<close> is taken as correctly
  rounded, which libm does not promise; nothing below evaluates it.
\<close>

definition xyz_to_lab_d :: "real \<Rightarrow> real" where
  "xyz_to_lab_d c =
     (if c > fdiv 216 24389 then fl (pow c (fdiv 1 3))
      else fadd (fmul c (fdiv 841 108)) (fdiv 4 29))"

definition color_LinearRGB_to_XYZ_d :: conversion_func where
  "color_LinearRGB_to_XYZ_d c extra' =
     (if type c \<noteq> COLOR_LINEAR_RGB then Inl (Assert_type COLOR_LINEAR_RGB)
      else case payload c of
        B3 _ _ _ \<Rightarrow> Inl Union_misread
      | D3 R G B \<Rightarrow>
          Inr (c\<lparr>type := COLOR_XYZ,
                 payload :=
                   D3 (fadd (fadd (fmul R (fdiv 5067776 12288897)) (fmul G (fdiv 4394405 12288897)))
                            (fmul B (fdiv 4435075 24577794)))
                      (fadd (fadd (fmul R (fdiv 871024 4096299)) (fmul G (fdiv 8788810 12288897)))
                            (fmul B (fdiv 887015 12288897)))
                      (fadd (fadd (fmul R (fdiv 79184 4096299)) (fmul G (fdiv 4394405 36866691)))
                            (fmul B (fdiv 70074185 73733382)))\<rparr>))"

definition color_XYZ_to_Lab_d :: conversion_func where
  "color_XYZ_to_Lab_d c extra' =
     (if type c \<noteq> COLOR_XYZ then Inl (Assert_type COLOR_XYZ)
      else case payload c of
        B3 _ _ _ \<Rightarrow> Inl Union_misread
      | D3 X Y Z \<Rightarrow>
          (let X = (if X > fdiv 3377268 401223439
                    then fl (pow (fmul X (fdiv 32902 31271)) (fdiv 1 3))
                    else fadd (fmul X (fdiv 13835291 1688634)) (fdiv 4 29));
               Y = (if Y > fdiv 216 24389 then fl (pow Y (fdiv 1 3))
                    else fadd (fmul Y (fdiv 841 108)) (fdiv 4 29));
               Z = (if Z > fdiv 3869316 401223439
                    then fl (pow (fmul Z (fdiv 32902 35827)) (fdiv 1 3))
                    else fadd (fmul Z (fdiv 13835291 1934658)) (fdiv 4 29))
           in Inr (c\<lparr>type := COLOR_LAB,
                 payload := D3 (fsub (fmul Y 116) 16) (fmul (fsub X Y) 500)
                               (fmul (fsub Y Z) 200)\<rparr>)))"

definition color_LinearRGB_to_Lab_d :: conversion_func where
  "color_LinearRGB_to_Lab_d c extra' =
     (if type c \<noteq> COLOR_LINEAR_RGB then Inl (Assert_type COLOR_LINEAR_RGB)
      else case payload c of
        B3 _ _ _ \<Rightarrow> Inl Union_misread
      | D3 R G B \<Rightarrow>
          (let X = xyz_to_lab_d
                     (fadd (fadd (fmul R (fdiv 10135552 23359437)) (fmul G (fdiv 8788810 23359437)))
                           (fmul B (fdiv 4435075 23359437)));
               Y = xyz_to_lab_d
                     (fadd (fadd (fmul R (fdiv 871024 4096299)) (fmul G (fdiv 8788810 12288897)))
                           (fmul B (fdiv 887015 12288897)));
               Z = xyz_to_lab_d
                     (fadd (fadd (fmul R (fdiv 158368 8920923)) (fmul G (fdiv 8788810 80288307)))
                           (fmul B (fdiv 70074185 80288307)))
           in Inr (c\<lparr>type := COLOR_LAB,
                 payload := D3 (fsub (fmul Y 116) 16) (fmul (fsub X Y) 500)
                               (fmul (fsub Y Z) 200)\<rparr>)))"

section \<open>The descriptor table\<close>

text \<open>
  \<^verbatim>\<open>g_descriptors\<close>: per source space, the row of direct edges and the row of next hops,
  both indexed by the destination's enumerator minus one. A row the source leaves short
  is filled with null pointers by the C initialiser; they are written out here.
\<close>

record color_descriptor =
  conversions :: "conversion_func option list"
  proxy_conversions :: "color_type list"

definition desc_RGB8 :: color_descriptor where
  "desc_RGB8 = \<lparr>
     conversions =
       [None, Some color_RGB8_to_RGB, Some color_RGB8_to_LinearRGB, None, None, None, None, None,
        None, None, None, None, None, None, None, None],
     proxy_conversions =
       [COLOR_NONE, COLOR_NONE, COLOR_NONE, COLOR_RGB, COLOR_RGB, COLOR_RGB, COLOR_RGB, COLOR_RGB,
        COLOR_RGB, COLOR_LINEAR_RGB, COLOR_LINEAR_RGB, COLOR_LINEAR_RGB, COLOR_LINEAR_RGB,
        COLOR_LINEAR_RGB, COLOR_LINEAR_RGB, COLOR_LINEAR_RGB] \<rparr>"

definition desc_RGB :: color_descriptor where
  "desc_RGB = \<lparr>
     conversions =
       [Some color_RGB_to_RGB8, None, Some color_RGB_to_LinearRGB, Some color_RGB_to_HSL,
        Some color_RGB_to_HSV, Some color_RGB_to_YUV, None, Some color_RGB_to_YDbDr,
        Some color_RGB_to_YIQ, None, None, None, None, None, None, None],
     proxy_conversions =
       [COLOR_NONE, COLOR_NONE, COLOR_NONE, COLOR_NONE, COLOR_NONE, COLOR_NONE, COLOR_YUV,
        COLOR_NONE, COLOR_NONE, COLOR_LINEAR_RGB, COLOR_LINEAR_RGB, COLOR_LINEAR_RGB,
        COLOR_LINEAR_RGB, COLOR_LINEAR_RGB, COLOR_LINEAR_RGB, COLOR_LINEAR_RGB] \<rparr>"

definition desc_LINEAR_RGB :: color_descriptor where
  "desc_LINEAR_RGB = \<lparr>
     conversions =
       [Some color_LinearRGB_to_RGB8, Some color_LinearRGB_to_RGB, None, None, None, None, None,
        None, None, Some color_LinearRGB_to_XYZ, None, Some color_LinearRGB_to_Lab, None, None,
        None, None],
     proxy_conversions =
       [COLOR_NONE, COLOR_NONE, COLOR_NONE, COLOR_RGB, COLOR_RGB, COLOR_RGB, COLOR_RGB, COLOR_RGB,
        COLOR_RGB, COLOR_NONE, COLOR_XYZ, COLOR_NONE, COLOR_XYZ, COLOR_LAB, COLOR_XYZ,
        COLOR_XYZ] \<rparr>"

definition desc_HSL :: color_descriptor where
  "desc_HSL = \<lparr>
     conversions =
       [None, Some color_HSL_to_RGB, None, None, None, None, None, None,
        None, None, None, None, None, None, None, None],
     proxy_conversions =
       [COLOR_RGB, COLOR_NONE, COLOR_RGB, COLOR_NONE, COLOR_RGB, COLOR_RGB, COLOR_RGB, COLOR_RGB,
        COLOR_RGB, COLOR_RGB, COLOR_RGB, COLOR_RGB, COLOR_RGB, COLOR_RGB, COLOR_RGB,
        COLOR_RGB] \<rparr>"

definition desc_HSV :: color_descriptor where
  "desc_HSV = \<lparr>
     conversions =
       [None, Some color_HSV_to_RGB, None, None, None, None, None, None,
        None, None, None, None, None, None, None, None],
     proxy_conversions =
       [COLOR_RGB, COLOR_NONE, COLOR_RGB, COLOR_RGB, COLOR_NONE, COLOR_RGB, COLOR_RGB, COLOR_RGB,
        COLOR_RGB, COLOR_RGB, COLOR_RGB, COLOR_RGB, COLOR_RGB, COLOR_RGB, COLOR_RGB,
        COLOR_RGB] \<rparr>"

definition desc_YUV :: color_descriptor where
  "desc_YUV = \<lparr>
     conversions =
       [None, Some color_YUV_to_RGB, None, None, None, Some color_YUV_to_YUV,
        Some color_YUV_to_YCbCr, None, None, None, None, None, None, None, None, None],
     proxy_conversions =
       [COLOR_RGB, COLOR_NONE, COLOR_RGB, COLOR_RGB, COLOR_RGB, COLOR_NONE, COLOR_NONE, COLOR_RGB,
        COLOR_RGB, COLOR_RGB, COLOR_RGB, COLOR_RGB, COLOR_RGB, COLOR_RGB, COLOR_RGB,
        COLOR_RGB] \<rparr>"

definition desc_YCBCR :: color_descriptor where
  "desc_YCBCR = \<lparr>
     conversions =
       [None, None, None, None, None, Some color_YCbCr_to_YUV, Some color_YCbCr_to_YCbCr, None,
        None, None, None, None, None, None, None, None],
     proxy_conversions =
       [COLOR_YUV, COLOR_YUV, COLOR_YUV, COLOR_YUV, COLOR_YUV, COLOR_NONE, COLOR_NONE, COLOR_YUV,
        COLOR_YUV, COLOR_YUV, COLOR_YUV, COLOR_YUV, COLOR_YUV, COLOR_YUV, COLOR_YUV,
        COLOR_YUV] \<rparr>"

definition desc_YDBDR :: color_descriptor where
  "desc_YDBDR = \<lparr>
     conversions =
       [None, Some color_YDbDr_to_RGB, None, None, None, None, None, None,
        Some color_YDbDr_to_YIQ, None, None, None, None, None, None, None],
     proxy_conversions =
       [COLOR_RGB, COLOR_NONE, COLOR_RGB, COLOR_RGB, COLOR_RGB, COLOR_RGB, COLOR_RGB, COLOR_NONE,
        COLOR_NONE, COLOR_RGB, COLOR_RGB, COLOR_RGB, COLOR_RGB, COLOR_RGB, COLOR_RGB,
        COLOR_RGB] \<rparr>"

definition desc_YIQ :: color_descriptor where
  "desc_YIQ = \<lparr>
     conversions =
       [None, Some color_YIQ_to_RGB, None, None, None, None, None, Some color_YIQ_to_YDbDr,
        None, None, None, None, None, None, None, None],
     proxy_conversions =
       [COLOR_RGB, COLOR_NONE, COLOR_RGB, COLOR_RGB, COLOR_RGB, COLOR_RGB, COLOR_RGB, COLOR_NONE,
        COLOR_NONE, COLOR_RGB, COLOR_RGB, COLOR_RGB, COLOR_RGB, COLOR_RGB, COLOR_RGB,
        COLOR_RGB] \<rparr>"

definition desc_XYZ :: color_descriptor where
  "desc_XYZ = \<lparr>
     conversions =
       [None, None, Some color_XYZ_to_LinearRGB, None, None, None, None, None,
        None, None, Some color_XYZ_to_xyY, Some color_XYZ_to_Lab, Some color_XYZ_to_Luv, None,
        None, None],
     proxy_conversions =
       [COLOR_LINEAR_RGB, COLOR_LINEAR_RGB, COLOR_NONE, COLOR_LINEAR_RGB, COLOR_LINEAR_RGB,
        COLOR_LINEAR_RGB, COLOR_LINEAR_RGB, COLOR_LINEAR_RGB, COLOR_LINEAR_RGB, COLOR_NONE,
        COLOR_NONE, COLOR_NONE, COLOR_NONE, COLOR_LAB, COLOR_LUV, COLOR_LUV] \<rparr>"

definition desc_XYY :: color_descriptor where
  "desc_XYY = \<lparr>
     conversions =
       [None, None, None, None, None, None, None, None,
        None, Some color_xyY_to_XYZ, None, None, None, None, None, None],
     proxy_conversions =
       [COLOR_XYZ, COLOR_XYZ, COLOR_XYZ, COLOR_XYZ, COLOR_XYZ, COLOR_XYZ, COLOR_XYZ, COLOR_XYZ,
        COLOR_XYZ, COLOR_NONE, COLOR_NONE, COLOR_XYZ, COLOR_XYZ, COLOR_XYZ, COLOR_XYZ,
        COLOR_XYZ] \<rparr>"

definition desc_LAB :: color_descriptor where
  "desc_LAB = \<lparr>
     conversions =
       [None, None, Some color_Lab_to_LinearRGB, None, None, None, None, None,
        None, Some color_Lab_to_XYZ, None, None, None, Some color_Lab_to_LCHab, None, None],
     proxy_conversions =
       [COLOR_LINEAR_RGB, COLOR_LINEAR_RGB, COLOR_NONE, COLOR_LINEAR_RGB, COLOR_LINEAR_RGB,
        COLOR_LINEAR_RGB, COLOR_LINEAR_RGB, COLOR_LINEAR_RGB, COLOR_LINEAR_RGB, COLOR_NONE,
        COLOR_XYZ, COLOR_NONE, COLOR_XYZ, COLOR_NONE, COLOR_XYZ, COLOR_XYZ] \<rparr>"

definition desc_LUV :: color_descriptor where
  "desc_LUV = \<lparr>
     conversions =
       [None, None, None, None, None, None, None, None,
        None, Some color_Luv_to_XYZ, None, None, None, None, Some color_Luv_to_LCHuv, None],
     proxy_conversions =
       [COLOR_XYZ, COLOR_XYZ, COLOR_XYZ, COLOR_XYZ, COLOR_XYZ, COLOR_XYZ, COLOR_XYZ, COLOR_XYZ,
        COLOR_XYZ, COLOR_NONE, COLOR_XYZ, COLOR_XYZ, COLOR_NONE, COLOR_XYZ, COLOR_NONE,
        COLOR_LCHUV] \<rparr>"

definition desc_LCHAB :: color_descriptor where
  "desc_LCHAB = \<lparr>
     conversions =
       [None, None, None, None, None, None, None, None,
        None, None, None, Some color_LCHab_to_Lab, None, None, None, None],
     proxy_conversions =
       [COLOR_LAB, COLOR_LAB, COLOR_LAB, COLOR_LAB, COLOR_LAB, COLOR_LAB, COLOR_LAB, COLOR_LAB,
        COLOR_LAB, COLOR_LAB, COLOR_LAB, COLOR_NONE, COLOR_LAB, COLOR_NONE, COLOR_LAB,
        COLOR_LAB] \<rparr>"

definition desc_LCHUV :: color_descriptor where
  "desc_LCHUV = \<lparr>
     conversions =
       [None, None, None, None, None, None, None, None,
        None, None, None, None, Some color_LCHuv_to_Luv, None, None, Some color_LCHuv_to_LSHuv],
     proxy_conversions =
       [COLOR_LUV, COLOR_LUV, COLOR_LUV, COLOR_LUV, COLOR_LUV, COLOR_LUV, COLOR_LUV, COLOR_LUV,
        COLOR_LUV, COLOR_LUV, COLOR_LUV, COLOR_LUV, COLOR_NONE, COLOR_LUV, COLOR_NONE,
        COLOR_NONE] \<rparr>"

definition desc_LSHUV :: color_descriptor where
  "desc_LSHUV = \<lparr>
     conversions =
       [None, None, None, None, None, None, None, None,
        None, None, None, None, None, None, Some color_LSHuv_to_LCHuv, None],
     proxy_conversions =
       [COLOR_LCHUV, COLOR_LCHUV, COLOR_LCHUV, COLOR_LCHUV, COLOR_LCHUV, COLOR_LCHUV,
        COLOR_LCHUV, COLOR_LCHUV, COLOR_LCHUV, COLOR_LCHUV, COLOR_LCHUV, COLOR_LCHUV,
        COLOR_LCHUV, COLOR_LCHUV, COLOR_NONE, COLOR_NONE] \<rparr>"

definition g_descriptors :: "color_descriptor list" where
  "g_descriptors =
     [desc_RGB8, desc_RGB, desc_LINEAR_RGB, desc_HSL, desc_HSV, desc_YUV, desc_YCBCR,
      desc_YDBDR, desc_YIQ, desc_XYZ, desc_XYY, desc_LAB, desc_LUV, desc_LCHAB, desc_LCHUV,
      desc_LSHUV]"

section \<open>The routing engine\<close>

text \<open>
  The pair of assertions \<^verbatim>\<open>t > COLOR_NONE\<close> and \<^verbatim>\<open>t < COLOR_DUMMY_END\<close> that guards
  every table read.
\<close>

definition valid_type :: "color_type \<Rightarrow> bool" where
  "valid_type t =
     (type_index t > type_index COLOR_NONE \<and> type_index t < type_index COLOR_DUMMY_END)"

type_synonym hop = "color_type \<times> color_type"

text \<open>
  One pass through the body of the \<^verbatim>\<open>while\<close> loop of \<^verbatim>\<open>color_convert\<close>. Besides the
  new value it reports the edge it applied, as the pair of the tag before and the
  single-step destination \<^verbatim>\<open>tmp_type\<close>.
\<close>

definition convert_step :: "color \<Rightarrow> color_type \<Rightarrow> 8 word \<Rightarrow> error + color \<times> hop" where
  "convert_step c new_type new_extra =
     (if \<not> valid_type (type c) then Inl Assert_cur_type
      else
        (let desc = g_descriptors ! (type_index (type c) - 1)
         in case (case conversions desc ! (type_index new_type - 1) of
                    Some func \<Rightarrow> Inr (func, new_type)
                  | None \<Rightarrow>
                      (let tmp_type = proxy_conversions desc ! (type_index new_type - 1)
                       in if \<not> valid_type tmp_type then Inl Assert_proxy_type
                          else case conversions desc ! (type_index tmp_type - 1) of
                                 None \<Rightarrow> Inl Assert_func_null
                               | Some func \<Rightarrow> Inr (func, tmp_type))) of
              Inl e \<Rightarrow> Inl e
            | Inr (func, tmp_type) \<Rightarrow>
                (case func c new_extra of
                   Inl e \<Rightarrow> Inl e
                 | Inr c' \<Rightarrow>
                     if \<not> (type c' = tmp_type) then Inl Assert_step_type
                     else Inr (c', (type c, tmp_type)))))"

text \<open>
  The \<^verbatim>\<open>while\<close> loop, with fuel: \<open>None\<close> is a run that has not left the loop when the
  fuel is spent. The list collects the edges applied so far, oldest first.
\<close>

fun convert_loop ::
  "nat \<Rightarrow> color \<Rightarrow> color_type \<Rightarrow> 8 word \<Rightarrow> hop list \<Rightarrow> (error + color \<times> hop list) option"
where
  "convert_loop 0 c new_type new_extra hops =
     (if type c \<noteq> new_type \<or> extra c \<noteq> new_extra then None
      else Some (Inr (c, hops)))"
| "convert_loop (Suc fuel) c new_type new_extra hops =
     (if type c \<noteq> new_type \<or> extra c \<noteq> new_extra
      then (case convert_step c new_type new_extra of
              Inl e \<Rightarrow> Some (Inl e)
            | Inr (c', h) \<Rightarrow> convert_loop fuel c' new_type new_extra (hops @ [h]))
      else Some (Inr (c, hops)))"

definition color_convert ::
  "nat \<Rightarrow> color \<Rightarrow> color_type \<Rightarrow> 8 word \<Rightarrow> (error + color \<times> hop list) option"
where
  "color_convert fuel c new_type new_extra =
     (if \<not> valid_type new_type then Some (Inl Assert_new_type)
      else case convert_loop fuel c new_type new_extra [] of
        None \<Rightarrow> None
      | Some (Inl e) \<Rightarrow> Some (Inl e)
      | Some (Inr (c', hops)) \<Rightarrow>
          if \<not> valid_type (type c') then Some (Inl Assert_cur_type)
          else Some (Inr (c', hops)))"

section \<open>Vocabulary of the properties\<close>

text \<open>
  A value is laid out as its tag says: bytes in the two quantised spaces, doubles in
  every other one. The edges read the union through the member of the tag they assert,
  so this is what a caller owes them.
\<close>

definition layout_ok :: "color \<Rightarrow> bool" where
  "layout_ok c =
     (case payload c of
        B3 _ _ _ \<Rightarrow> type c = COLOR_RGB8 \<or> type c = COLOR_YCBCR
      | D3 _ _ _ \<Rightarrow> type c \<noteq> COLOR_RGB8 \<and> type c \<noteq> COLOR_YCBCR)"

text \<open>
  The flag bits that mean something in a space: the matrix selector for YUV, matrix and
  range for YCbCr, none elsewhere.
\<close>

definition meaningful_mask :: "color_type \<Rightarrow> 8 word" where
  "meaningful_mask t =
     (if t = COLOR_YUV then COLOR_YUV_MAT_MASK
      else if t = COLOR_YCBCR then COLOR_YUV_MAT_MASK OR COLOR_YCBCR_FULL_RANGE
      else 0)"

definition flags_canonical :: "color \<Rightarrow> bool" where
  "flags_canonical c = (extra c AND NOT (meaningful_mask (type c)) = 0)"

text \<open>
  The weaker condition the routing loop needs of a (space, flags) pair: outside the two
  video spaces the flags byte is zero; inside them it is any byte.
\<close>

definition settled :: "color_type \<Rightarrow> 8 word \<Rightarrow> bool" where
  "settled t x = (t = COLOR_YUV \<or> t = COLOR_YCBCR \<or> x = 0)"

text \<open>
  An edge runs on a value: it returns without a failed assertion, and the result has the
  given tag and flags and is laid out as its tag says.
\<close>

definition runs :: "conversion_func \<Rightarrow> color \<Rightarrow> 8 word \<Rightarrow> color_type \<Rightarrow> 8 word \<Rightarrow> bool" where
  "runs f c e d x =
     (f c e = Inr (projr (f c e)) \<and> type (projr (f c e)) = d \<and>
      extra (projr (f c e)) = x \<and> layout_ok (projr (f c e)))"

text \<open>The edges a finished run applied, if it finished without a failed assertion.\<close>

definition hops_of :: "(error + color \<times> hop list) option \<Rightarrow> hop list option" where
  "hops_of r = (case r of Some (Inr (c, hops)) \<Rightarrow> Some hops | _ \<Rightarrow> None)"

text \<open>
  The sRGB transfer function and its inverse as the standard states them, to compare
  the gamma edges with.
\<close>

definition srgb_to_linear_spec :: "real \<Rightarrow> real" where
  "srgb_to_linear_spec c =
     (if c > 0.0031308 * 12.92 then ((c + 0.055) / 1.055) powr 2.4 else c / 12.92)"

definition linear_to_srgb_spec :: "real \<Rightarrow> real" where
  "linear_to_srgb_spec c =
     (if c > 0.0031308 then 1.055 * c powr (1 / 2.4) - 0.055 else 12.92 * c)"

section \<open>What the edges do to tag, flags and layout\<close>

lemma runsI:
  "f c e = Inr c' \<Longrightarrow> type c' = d \<Longrightarrow> extra c' = x \<Longrightarrow> layout_ok c' \<Longrightarrow> runs f c e d x"
  by (simp add: runs_def)

lemma runsE:
  assumes "runs f c e d x"
  obtains c' where "f c e = Inr c'" "type c' = d" "extra c' = x" "layout_ok c'"
  using assms unfolding runs_def by blast

lemma runs_case: "runs f c e d x \<Longrightarrow> case_sum A B (f c e) = B (projr (f c e))"
  by (metis runs_def sum.case(2))

lemma runs_type: "runs f c e d x \<Longrightarrow> type (projr (f c e)) = d"
  by (simp add: runs_def)

lemma runs_extra: "runs f c e d x \<Longrightarrow> extra (projr (f c e)) = x"
  by (simp add: runs_def)

lemma runs_layout: "runs f c e d x \<Longrightarrow> layout_ok (projr (f c e))"
  by (simp add: runs_def)

lemma color_RGB8_to_RGB_runs:
  "type c = COLOR_RGB8 \<Longrightarrow> layout_ok c \<Longrightarrow> runs color_RGB8_to_RGB c e COLOR_RGB (extra c)"
  by (auto simp: runs_def color_RGB8_to_RGB_def layout_ok_def Let_def split: payload.splits)

lemma color_RGB8_to_LinearRGB_runs:
  "type c = COLOR_RGB8 \<Longrightarrow> layout_ok c \<Longrightarrow> runs color_RGB8_to_LinearRGB c e COLOR_LINEAR_RGB (extra c)"
  by (auto simp: runs_def color_RGB8_to_LinearRGB_def layout_ok_def Let_def split: payload.splits)

lemma color_RGB_to_RGB8_runs:
  "type c = COLOR_RGB \<Longrightarrow> layout_ok c \<Longrightarrow> runs color_RGB_to_RGB8 c e COLOR_RGB8 (extra c)"
  by (auto simp: runs_def color_RGB_to_RGB8_def layout_ok_def Let_def split: payload.splits)

lemma color_RGB_to_LinearRGB_runs:
  "type c = COLOR_RGB \<Longrightarrow> layout_ok c \<Longrightarrow> runs color_RGB_to_LinearRGB c e COLOR_LINEAR_RGB (extra c)"
  by (auto simp: runs_def color_RGB_to_LinearRGB_def layout_ok_def Let_def split: payload.splits)

lemma color_RGB_to_HSL_runs:
  "type c = COLOR_RGB \<Longrightarrow> layout_ok c \<Longrightarrow> runs color_RGB_to_HSL c e COLOR_HSL (extra c)"
  by (auto simp: runs_def color_RGB_to_HSL_def layout_ok_def Let_def split: payload.splits)

lemma color_RGB_to_HSV_runs:
  "type c = COLOR_RGB \<Longrightarrow> layout_ok c \<Longrightarrow> runs color_RGB_to_HSV c e COLOR_HSV (extra c)"
  by (auto simp: runs_def color_RGB_to_HSV_def layout_ok_def Let_def split: payload.splits)

lemma color_RGB_to_YUV_runs:
  "type c = COLOR_RGB \<Longrightarrow> layout_ok c \<Longrightarrow> runs color_RGB_to_YUV c e COLOR_YUV e"
  by (auto simp: runs_def color_RGB_to_YUV_def layout_ok_def Let_def split: payload.splits)

lemma color_RGB_to_YDbDr_runs:
  "type c = COLOR_RGB \<Longrightarrow> layout_ok c \<Longrightarrow> runs color_RGB_to_YDbDr c e COLOR_YDBDR (extra c)"
  by (auto simp: runs_def color_RGB_to_YDbDr_def layout_ok_def Let_def split: payload.splits)

lemma color_RGB_to_YIQ_runs:
  "type c = COLOR_RGB \<Longrightarrow> layout_ok c \<Longrightarrow> runs color_RGB_to_YIQ c e COLOR_YIQ (extra c)"
  by (auto simp: runs_def color_RGB_to_YIQ_def layout_ok_def Let_def split: payload.splits)

lemma color_LinearRGB_to_RGB8_runs:
  "type c = COLOR_LINEAR_RGB \<Longrightarrow> layout_ok c \<Longrightarrow> runs color_LinearRGB_to_RGB8 c e COLOR_RGB8 (extra c)"
  by (auto simp: runs_def color_LinearRGB_to_RGB8_def layout_ok_def Let_def split: payload.splits)

lemma color_LinearRGB_to_RGB_runs:
  "type c = COLOR_LINEAR_RGB \<Longrightarrow> layout_ok c \<Longrightarrow> runs color_LinearRGB_to_RGB c e COLOR_RGB (extra c)"
  by (auto simp: runs_def color_LinearRGB_to_RGB_def layout_ok_def Let_def split: payload.splits)

lemma color_LinearRGB_to_XYZ_runs:
  "type c = COLOR_LINEAR_RGB \<Longrightarrow> layout_ok c \<Longrightarrow> runs color_LinearRGB_to_XYZ c e COLOR_XYZ (extra c)"
  by (auto simp: runs_def color_LinearRGB_to_XYZ_def layout_ok_def Let_def split: payload.splits)

lemma color_LinearRGB_to_Lab_runs:
  "type c = COLOR_LINEAR_RGB \<Longrightarrow> layout_ok c \<Longrightarrow> runs color_LinearRGB_to_Lab c e COLOR_LAB (extra c)"
  by (auto simp: runs_def color_LinearRGB_to_Lab_def layout_ok_def Let_def split: payload.splits)

lemma color_YUV_to_RGB_runs:
  "type c = COLOR_YUV \<Longrightarrow> layout_ok c \<Longrightarrow> runs color_YUV_to_RGB c e COLOR_RGB 0"
  by (auto simp: runs_def color_YUV_to_RGB_def layout_ok_def Let_def split: payload.splits)

lemma color_YDbDr_to_RGB_runs:
  "type c = COLOR_YDBDR \<Longrightarrow> layout_ok c \<Longrightarrow> runs color_YDbDr_to_RGB c e COLOR_RGB (extra c)"
  by (auto simp: runs_def color_YDbDr_to_RGB_def layout_ok_def Let_def split: payload.splits)

lemma color_YDbDr_to_YIQ_runs:
  "type c = COLOR_YDBDR \<Longrightarrow> layout_ok c \<Longrightarrow> runs color_YDbDr_to_YIQ c e COLOR_YIQ (extra c)"
  by (auto simp: runs_def color_YDbDr_to_YIQ_def layout_ok_def Let_def split: payload.splits)

lemma color_YIQ_to_RGB_runs:
  "type c = COLOR_YIQ \<Longrightarrow> layout_ok c \<Longrightarrow> runs color_YIQ_to_RGB c e COLOR_RGB (extra c)"
  by (auto simp: runs_def color_YIQ_to_RGB_def layout_ok_def Let_def split: payload.splits)

lemma color_YIQ_to_YDbDr_runs:
  "type c = COLOR_YIQ \<Longrightarrow> layout_ok c \<Longrightarrow> runs color_YIQ_to_YDbDr c e COLOR_YDBDR (extra c)"
  by (auto simp: runs_def color_YIQ_to_YDbDr_def layout_ok_def Let_def split: payload.splits)

lemma color_XYZ_to_LinearRGB_runs:
  "type c = COLOR_XYZ \<Longrightarrow> layout_ok c \<Longrightarrow> runs color_XYZ_to_LinearRGB c e COLOR_LINEAR_RGB (extra c)"
  by (auto simp: runs_def color_XYZ_to_LinearRGB_def layout_ok_def Let_def split: payload.splits)

lemma color_XYZ_to_xyY_runs:
  "type c = COLOR_XYZ \<Longrightarrow> layout_ok c \<Longrightarrow> runs color_XYZ_to_xyY c e COLOR_XYY (extra c)"
  by (auto simp: runs_def color_XYZ_to_xyY_def layout_ok_def Let_def split: payload.splits)

lemma color_XYZ_to_Lab_runs:
  "type c = COLOR_XYZ \<Longrightarrow> layout_ok c \<Longrightarrow> runs color_XYZ_to_Lab c e COLOR_LAB (extra c)"
  by (auto simp: runs_def color_XYZ_to_Lab_def layout_ok_def Let_def split: payload.splits)

lemma color_XYZ_to_Luv_runs:
  "type c = COLOR_XYZ \<Longrightarrow> layout_ok c \<Longrightarrow> runs color_XYZ_to_Luv c e COLOR_LUV (extra c)"
  by (auto simp: runs_def color_XYZ_to_Luv_def layout_ok_def Let_def split: payload.splits)

lemma color_xyY_to_XYZ_runs:
  "type c = COLOR_XYY \<Longrightarrow> layout_ok c \<Longrightarrow> runs color_xyY_to_XYZ c e COLOR_XYZ (extra c)"
  by (auto simp: runs_def color_xyY_to_XYZ_def layout_ok_def Let_def split: payload.splits)

lemma color_Lab_to_LinearRGB_runs:
  "type c = COLOR_LAB \<Longrightarrow> layout_ok c \<Longrightarrow> runs color_Lab_to_LinearRGB c e COLOR_LINEAR_RGB (extra c)"
  by (auto simp: runs_def color_Lab_to_LinearRGB_def layout_ok_def Let_def split: payload.splits)

lemma color_Lab_to_XYZ_runs:
  "type c = COLOR_LAB \<Longrightarrow> layout_ok c \<Longrightarrow> runs color_Lab_to_XYZ c e COLOR_XYZ (extra c)"
  by (auto simp: runs_def color_Lab_to_XYZ_def layout_ok_def Let_def split: payload.splits)

lemma color_Lab_to_LCHab_runs:
  "type c = COLOR_LAB \<Longrightarrow> layout_ok c \<Longrightarrow> runs color_Lab_to_LCHab c e COLOR_LCHAB (extra c)"
  by (auto simp: runs_def color_Lab_to_LCHab_def layout_ok_def Let_def split: payload.splits)

lemma color_Luv_to_XYZ_runs:
  "type c = COLOR_LUV \<Longrightarrow> layout_ok c \<Longrightarrow> runs color_Luv_to_XYZ c e COLOR_XYZ (extra c)"
  by (auto simp: runs_def color_Luv_to_XYZ_def layout_ok_def Let_def split: payload.splits)

lemma color_LCHab_to_Lab_runs:
  "type c = COLOR_LCHAB \<Longrightarrow> layout_ok c \<Longrightarrow> runs color_LCHab_to_Lab c e COLOR_LAB (extra c)"
  by (auto simp: runs_def color_LCHab_to_Lab_def layout_ok_def Let_def split: payload.splits)

lemma color_LCHuv_to_LSHuv_runs:
  "type c = COLOR_LCHUV \<Longrightarrow> layout_ok c \<Longrightarrow> runs color_LCHuv_to_LSHuv c e COLOR_LSHUV (extra c)"
  by (auto simp: runs_def color_LCHuv_to_LSHuv_def layout_ok_def Let_def split: payload.splits)

lemma color_LSHuv_to_LCHuv_runs:
  "type c = COLOR_LSHUV \<Longrightarrow> layout_ok c \<Longrightarrow> runs color_LSHuv_to_LCHuv c e COLOR_LCHUV (extra c)"
  by (auto simp: runs_def color_LSHuv_to_LCHuv_def layout_ok_def Let_def split: payload.splits)

lemma color_YUV_to_YUV_runs:
  assumes t: "type c = COLOR_YUV" and l: "layout_ok c" and x: "extra c \<noteq> e"
  shows "runs color_YUV_to_YUV c e COLOR_YUV e"
proof -
  obtain c1 where 1: "color_YUV_to_RGB c e = Inr c1" "type c1 = COLOR_RGB" "layout_ok c1"
    using color_YUV_to_RGB_runs [OF t l] by (rule runsE)
  obtain c2 where 2: "color_RGB_to_YUV c1 e = Inr c2" "type c2 = COLOR_YUV" "extra c2 = e"
      "layout_ok c2"
    using color_RGB_to_YUV_runs [OF 1(2,3)] by (rule runsE)
  have "color_YUV_to_YUV c e = Inr c2"
    using t x 1 2 by (simp add: color_YUV_to_YUV_def)
  then show ?thesis
    using 2(2-4) by (rule runsI)
qed

lemma mask_differs: "x AND COLOR_YUV_MAT_MASK \<noteq> e AND COLOR_YUV_MAT_MASK \<Longrightarrow> x \<noteq> e"
  by auto

lemma color_YUV_to_YCbCr_runs:
  assumes t: "type c = COLOR_YUV" and l: "layout_ok c"
  shows "runs color_YUV_to_YCbCr c e COLOR_YCBCR e"
proof -
  obtain c1 where 1:
    "(if (extra c AND COLOR_YUV_MAT_MASK) \<noteq> (e AND COLOR_YUV_MAT_MASK)
      then color_YUV_to_YUV c e else Inr c) = Inr c1" "type c1 = COLOR_YUV" "layout_ok c1"
  proof (cases "(extra c AND COLOR_YUV_MAT_MASK) \<noteq> (e AND COLOR_YUV_MAT_MASK)")
    case True
    then have "extra c \<noteq> e" by (rule mask_differs)
    from color_YUV_to_YUV_runs [OF t l this] show ?thesis
      using True that by (auto elim!: runsE)
  next
    case False
    then show ?thesis using that t l by simp
  qed
  obtain Y U V where p: "payload c1 = D3 Y U V"
    using 1 by (auto simp: layout_ok_def split: payload.splits)
  show ?thesis
    using t 1 p by (simp add: runs_def color_YUV_to_YCbCr_def layout_ok_def)
qed

lemma clear_range_mask:
  "(x AND NOT COLOR_YCBCR_FULL_RANGE) AND COLOR_YUV_MAT_MASK = x AND COLOR_YUV_MAT_MASK"
  by (simp add: and.assoc COLOR_YCBCR_FULL_RANGE_def COLOR_YUV_MAT_MASK_def)

lemma color_YCbCr_to_YUV_runs:
  assumes t: "type c = COLOR_YCBCR" and l: "layout_ok c"
  shows "runs color_YCbCr_to_YUV c e COLOR_YUV
           (if extra c AND COLOR_YUV_MAT_MASK \<noteq> e AND COLOR_YUV_MAT_MASK then e
            else extra c AND NOT COLOR_YCBCR_FULL_RANGE)"
proof -
  obtain y cb cr where p: "payload c = B3 y cb cr"
    using t l by (auto simp: layout_ok_def split: payload.splits)
  obtain Y U V where yuv:
    "(if extra c AND COLOR_YCBCR_FULL_RANGE \<noteq> 0
      then (of_u8 y * (1 / 255), of_u8 cb * (109 / 31875) - 0.436, of_u8 cr * (41 / 8500) - 0.615)
      else (of_u8 y * (1 / 219) - 16 / 219, of_u8 cb * (109 / 28000) - 0.558625,
            of_u8 cr * (123 / 22400) - 0.78796875)) = (Y, U, V)"
    by (metis prod_cases3)
  define c1 where "c1 = c\<lparr>type := COLOR_YUV, extra := extra c AND NOT COLOR_YCBCR_FULL_RANGE,
    payload := D3 Y U V\<rparr>"
  have c1: "type c1 = COLOR_YUV" "layout_ok c1"
    "extra c1 = extra c AND NOT COLOR_YCBCR_FULL_RANGE"
    by (simp_all add: c1_def layout_ok_def)
  have eq: "color_YCbCr_to_YUV c e =
    (if extra c AND COLOR_YUV_MAT_MASK \<noteq> e AND COLOR_YUV_MAT_MASK
     then color_YUV_to_YUV c1 e else Inr c1)"
    using t p yuv by (simp add: color_YCbCr_to_YUV_def c1_def clear_range_mask)
  show ?thesis
  proof (cases "extra c AND COLOR_YUV_MAT_MASK \<noteq> e AND COLOR_YUV_MAT_MASK")
    case True
    then have "extra c1 AND COLOR_YUV_MAT_MASK \<noteq> e AND COLOR_YUV_MAT_MASK"
      by (simp add: c1 clear_range_mask)
    then have "extra c1 \<noteq> e" by (rule mask_differs)
    from color_YUV_to_YUV_runs [OF c1(1,2) this] show ?thesis
      using True eq by (simp add: runs_def)
  next
    case False
    then show ?thesis using eq c1 by (simp add: runs_def)
  qed
qed

lemma color_YCbCr_to_YCbCr_runs:
  assumes t: "type c = COLOR_YCBCR" and l: "layout_ok c" and x: "extra c \<noteq> e"
  shows "runs color_YCbCr_to_YCbCr c e COLOR_YCBCR e"
proof -
  obtain c1 where 1: "color_YCbCr_to_YUV c e = Inr c1" "type c1 = COLOR_YUV" "layout_ok c1"
    using color_YCbCr_to_YUV_runs [OF t l] by (rule runsE)
  obtain c2 where 2: "color_YUV_to_YCbCr c1 e = Inr c2" "type c2 = COLOR_YCBCR" "extra c2 = e"
      "layout_ok c2"
    using color_YUV_to_YCbCr_runs [OF 1(2,3)] by (rule runsE)
  have "color_YCbCr_to_YCbCr c e = Inr c2"
    using t x 1 2 by (simp add: color_YCbCr_to_YCbCr_def)
  then show ?thesis
    using 2(2-4) by (rule runsI)
qed

lemma color_Luv_to_LCHuv_runs:
  "type c = COLOR_LUV \<Longrightarrow> layout_ok c \<Longrightarrow> runs color_Luv_to_LCHuv c e COLOR_LCHUV (extra c)"
  by (auto simp: runs_def color_Luv_to_LCHuv_def color_Lab_to_LCHab_def layout_ok_def
      split: payload.splits)

lemma color_LCHuv_to_Luv_runs:
  "type c = COLOR_LCHUV \<Longrightarrow> layout_ok c \<Longrightarrow> runs color_LCHuv_to_Luv c e COLOR_LUV (extra c)"
  by (auto simp: runs_def color_LCHuv_to_Luv_def color_LCHab_to_Lab_def layout_ok_def
      split: payload.splits)

text \<open>
  The two edges through \<^verbatim>\<open>finish_HSL_to_RGB\<close> either run or stop at its assertion on
  the table index.
\<close>

lemma guarded_outcome:
  "(if g then Inl err else Inr (c\<lparr>payload := D3 x y z\<rparr>)) = Inl err
   \<or> (\<exists>a b d. (if g then Inl err else Inr (c\<lparr>payload := D3 x y z\<rparr>))
                = Inr (c\<lparr>payload := D3 a b d\<rparr>))"
  by (cases g) auto

lemma finish_outcome:
  "finish_HSL_to_RGB c h C m = Inl Assert_hue_idx
   \<or> (\<exists>a b d. finish_HSL_to_RGB c h C m = Inr (c\<lparr>payload := D3 a b d\<rparr>))"
  unfolding finish_HSL_to_RGB_def Let_def by (rule guarded_outcome)

lemma color_HSL_to_RGB_outcome:
  assumes t: "type c = COLOR_HSL" and l: "layout_ok c"
  shows "(\<forall>e. color_HSL_to_RGB c e = Inl Assert_hue_idx)
         \<or> (\<forall>e. runs color_HSL_to_RGB c e COLOR_RGB (extra c))"
proof -
  obtain H S L where p: "payload c = D3 H S L"
    using t l by (auto simp: layout_ok_def split: payload.splits)
  show ?thesis
  proof (cases "\<bar>S\<bar> > 0")
    case True
    from finish_outcome
      [of "c\<lparr>type := COLOR_RGB\<rparr>" H "(1 - \<bar>L * 2 - 1\<bar>) * S"
          "(1 - \<bar>L * 2 - 1\<bar>) * S * - 0.5 + L"]
    show ?thesis
      using t p True
      by (auto simp: runs_def color_HSL_to_RGB_def layout_ok_def Let_def)
  next
    case False
    then show ?thesis
      using t p by (simp add: runs_def color_HSL_to_RGB_def layout_ok_def)
  qed
qed

lemma color_HSV_to_RGB_outcome:
  assumes t: "type c = COLOR_HSV" and l: "layout_ok c"
  shows "(\<forall>e. color_HSV_to_RGB c e = Inl Assert_hue_idx)
         \<or> (\<forall>e. runs color_HSV_to_RGB c e COLOR_RGB (extra c))"
proof -
  obtain H S V where p: "payload c = D3 H S V"
    using t l by (auto simp: layout_ok_def split: payload.splits)
  show ?thesis
  proof (cases "\<bar>S\<bar> > 0")
    case True
    from finish_outcome [of "c\<lparr>type := COLOR_RGB\<rparr>" H "V * S" "V - V * S"]
    show ?thesis
      using t p True
      by (auto simp: runs_def color_HSV_to_RGB_def layout_ok_def Let_def)
  next
    case False
    then show ?thesis
      using t p by (simp add: runs_def color_HSV_to_RGB_def layout_ok_def)
  qed
qed

section \<open>Properties of single edges\<close>

text \<open>
  Claim C7. An achromatic RGB value, with all three channels equal to \<open>v\<close>, converts
  to HSL as hue 0, saturation 0, lightness \<open>v\<close>, and to HSV as hue 0, saturation 0,
  value \<open>v\<close>; the flags byte is left as it was. In particular RGB (0.5, 0.5, 0.5)
  becomes HSL (0, 0, 0.5).
\<close>

theorem achromatic_RGB_to_HSL_HSV:
  "color_RGB_to_HSL \<lparr>type = COLOR_RGB, extra = x, payload = D3 v v v\<rparr> e
     = Inr \<lparr>type = COLOR_HSL, extra = x, payload = D3 0 0 v\<rparr>
   \<and> color_RGB_to_HSV \<lparr>type = COLOR_RGB, extra = x, payload = D3 v v v\<rparr> e
     = Inr \<lparr>type = COLOR_HSV, extra = x, payload = D3 0 0 v\<rparr>
   \<and> color_RGB_to_HSL \<lparr>type = COLOR_RGB, extra = x, payload = D3 0.5 0.5 0.5\<rparr> e
     = Inr \<lparr>type = COLOR_HSL, extra = x, payload = D3 0 0 0.5\<rparr>"
  by (simp add: color_RGB_to_HSL_def color_RGB_to_HSV_def rgb_min_def rgb_max_def)

lemma rgb_to_linear_spec: "rgb_to_linear c = srgb_to_linear_spec c"
proof -
  have "c * (1 / 1.055) + 0.055 / 1.055 = (c + 0.055) / 1.055"
    by (simp add: field_simps)
  then show ?thesis
    unfolding rgb_to_linear_def srgb_to_linear_spec_def pow_def
    by (simp only: mult_1_right times_divide_eq_right)
qed

lemma linear_to_rgb_spec: "linear_to_rgb c = linear_to_srgb_spec c"
  by (simp add: linear_to_rgb_def linear_to_srgb_spec_def pow_def)

text \<open>
  Claim C8. On every channel value the RGB to linear RGB edge computes
  \<open>((c + 0.055) / 1.055) powr 2.4\<close> above the breakpoint \<open>0.0031308 * 12.92\<close> and
  \<open>c / 12.92\<close> at or below it, and the linear RGB to RGB edge computes
  \<open>1.055 * c powr (1 / 2.4) - 0.055\<close> above \<open>0.0031308\<close> and \<open>12.92 * c\<close> at or below it.
\<close>

theorem gamma_edges_are_sRGB:
  "color_RGB_to_LinearRGB \<lparr>type = COLOR_RGB, extra = x, payload = D3 R G B\<rparr> e
     = Inr \<lparr>type = COLOR_LINEAR_RGB, extra = x,
            payload = D3 (srgb_to_linear_spec R) (srgb_to_linear_spec G)
                         (srgb_to_linear_spec B)\<rparr>
   \<and> color_LinearRGB_to_RGB \<lparr>type = COLOR_LINEAR_RGB, extra = x, payload = D3 R G B\<rparr> e
     = Inr \<lparr>type = COLOR_RGB, extra = x,
            payload = D3 (linear_to_srgb_spec R) (linear_to_srgb_spec G)
                         (linear_to_srgb_spec B)\<rparr>"
  by (simp add: color_RGB_to_LinearRGB_def color_LinearRGB_to_RGB_def rgb_to_linear_spec
      linear_to_rgb_spec)

text \<open>
  Claim C9. When the components of an XYZ value sum to zero, the XYZ to xyY edge takes
  the branch without a division and stores X and Y unchanged as the chromaticity
  coordinates, with the luminance slot set to Y; it divides by the sum only when the sum
  is not zero.
\<close>

theorem XYZ_to_xyY_zero_sum:
  "(X + Y + Z = 0 \<longrightarrow>
      color_XYZ_to_xyY \<lparr>type = COLOR_XYZ, extra = x, payload = D3 X Y Z\<rparr> e
        = Inr \<lparr>type = COLOR_XYY, extra = x, payload = D3 X Y Y\<rparr>)
   \<and> (X + Y + Z \<noteq> 0 \<longrightarrow>
      color_XYZ_to_xyY \<lparr>type = COLOR_XYZ, extra = x, payload = D3 X Y Z\<rparr> e
        = Inr \<lparr>type = COLOR_XYY, extra = x,
               payload = D3 (X / (X + Y + Z)) (Y / (X + Y + Z)) Y\<rparr>)"
  by (simp add: color_XYZ_to_xyY_def Let_def)

theorem XYZ_to_xyY_zero_sum_witness:
  "color_XYZ_to_xyY \<lparr>type = COLOR_XYZ, extra = 0, payload = D3 1 (- 1) 0\<rparr> 0
        = Inr \<lparr>type = COLOR_XYY, extra = 0, payload = D3 1 (- 1) (- 1)\<rparr>
   \<and> color_XYZ_to_xyY \<lparr>type = COLOR_XYZ, extra = 0, payload = D3 1 2 1\<rparr> 0
        = Inr \<lparr>type = COLOR_XYY, extra = 0, payload = D3 (1 / 4) (1 / 2) 2\<rparr>"
  using XYZ_to_xyY_zero_sum [of 1 "- 1" 0 0 0] XYZ_to_xyY_zero_sum [of 1 2 1 0 0] by simp

lemma X_fold:
  "(R * (5067776 / 12288897) + G * (4394405 / 12288897) + B * (4435075 / 24577794))
     * COLOR_REF_Xr
   = R * (10135552 / 23359437) + G * (8788810 / 23359437) + B * (4435075 / 23359437 :: real)"
  by (simp add: COLOR_REF_Xr_def algebra_simps)

lemma Z_fold:
  "(R * (79184 / 4096299) + G * (4394405 / 36866691) + B * (70074185 / 73733382))
     * COLOR_REF_Zr
   = R * (158368 / 8920923) + G * (8788810 / 80288307) + B * (70074185 / 80288307 :: real)"
  by (simp add: COLOR_REF_Zr_def algebra_simps)

lemma X_branch:
  "(if X > 3377268 / 401223439 then pow (X * COLOR_REF_Xr) (1 / 3)
    else X * (13835291 / 1688634) + 4 / 29) = xyz_to_lab (X * COLOR_REF_Xr)"
  by (simp add: xyz_to_lab_def COLOR_REF_Xr_def field_simps)

lemma Z_branch:
  "(if Z > 3869316 / 401223439 then pow (Z * COLOR_REF_Zr) (1 / 3)
    else Z * (13835291 / 1934658) + 4 / 29) = xyz_to_lab (Z * COLOR_REF_Zr)"
  by (simp add: xyz_to_lab_def COLOR_REF_Zr_def field_simps)

lemma Y_branch:
  "(if Y > 216 / 24389 then pow Y (1 / 3) else Y * (841 / 108) + 4 / 29) = xyz_to_lab Y"
  by (simp only: xyz_to_lab_def)

lemma color_XYZ_to_Lab_normalised:
  "color_XYZ_to_Lab \<lparr>type = COLOR_XYZ, extra = x, payload = D3 X Y Z\<rparr> e =
     Inr \<lparr>type = COLOR_LAB, extra = x,
          payload = D3 (xyz_to_lab Y * 116 - 16)
                       ((xyz_to_lab (X * COLOR_REF_Xr) - xyz_to_lab Y) * 500)
                       ((xyz_to_lab Y - xyz_to_lab (Z * COLOR_REF_Zr)) * 200)\<rparr>"
  unfolding color_XYZ_to_Lab_def Let_def X_branch Y_branch Z_branch
  by simp

text \<open>
  Claim C10, as amended. As formulas, that is over exact real arithmetic, the direct
  linear RGB to Lab edge returns on every linear RGB value what the linear RGB to XYZ
  edge followed by the XYZ to Lab edge returns: the matrix rows with the white point
  folded in, the breakpoints and the linear segments agree as rational numbers. Nothing
  is said of the doubles the two paths return: they round differently.
\<close>

theorem LinearRGB_to_Lab_is_two_hops:
  "color_LinearRGB_to_Lab \<lparr>type = COLOR_LINEAR_RGB, extra = x, payload = D3 R G B\<rparr> e =
     (case color_LinearRGB_to_XYZ \<lparr>type = COLOR_LINEAR_RGB, extra = x, payload = D3 R G B\<rparr> e of
        Inl err \<Rightarrow> Inl err
      | Inr c1 \<Rightarrow> color_XYZ_to_Lab c1 e)"
proof -
  define X0 where
    "X0 = R * (5067776 / 12288897) + G * (4394405 / 12288897) + B * (4435075 / 24577794)"
  define Y0 where
    "Y0 = R * (871024 / 4096299) + G * (8788810 / 12288897) + B * (887015 / 12288897)"
  define Z0 where
    "Z0 = R * (79184 / 4096299) + G * (4394405 / 36866691) + B * (70074185 / 73733382)"
  have hop1:
    "color_LinearRGB_to_XYZ \<lparr>type = COLOR_LINEAR_RGB, extra = x, payload = D3 R G B\<rparr> e
      = Inr \<lparr>type = COLOR_XYZ, extra = x, payload = D3 X0 Y0 Z0\<rparr>"
    by (simp add: color_LinearRGB_to_XYZ_def X0_def Y0_def Z0_def)
  have direct:
    "color_LinearRGB_to_Lab \<lparr>type = COLOR_LINEAR_RGB, extra = x, payload = D3 R G B\<rparr> e
      = Inr \<lparr>type = COLOR_LAB, extra = x,
          payload = D3 (xyz_to_lab Y0 * 116 - 16)
                       ((xyz_to_lab (X0 * COLOR_REF_Xr) - xyz_to_lab Y0) * 500)
                       ((xyz_to_lab Y0 - xyz_to_lab (Z0 * COLOR_REF_Zr)) * 200)\<rparr>"
    unfolding X0_def Z0_def X_fold Z_fold
    by (simp add: color_LinearRGB_to_Lab_def Let_def Y0_def)
  show ?thesis
    by (simp only: hop1 direct sum.case color_XYZ_to_Lab_normalised)
qed

section \<open>Evaluating the rounding\<close>

lemma round_even_near:
  assumes "\<bar>y - of_int m\<bar> < 1 / 2"
  shows "round_even y = m"
proof (cases "of_int m \<le> y")
  case True
  with assms have "\<lfloor>y\<rfloor> = m" by (intro floor_unique) linarith+
  with assms True show ?thesis by (simp add: round_even_def Let_def)
next
  case False
  have m1: "real_of_int (m - 1) = of_int m - 1" by simp
  have "of_int (m - 1) \<le> y" "y < of_int (m - 1) + 1"
    unfolding m1 using assms False by linarith+
  then have f: "\<lfloor>y\<rfloor> = m - 1" by (rule floor_unique)
  have "y - of_int (m - 1) > 1 / 2" unfolding m1 using assms False by linarith
  with f show ?thesis by (simp add: round_even_def Let_def)
qed

lemma floor_log2:
  fixes x :: real
  assumes "2 ^ 52 \<le> x * 2 ^ n" "x * 2 ^ n < 2 ^ 53"
  shows "\<lfloor>log 2 x\<rfloor> = 52 - int n"
proof -
  have pos: "0 < x"
    using assms(1) by (smt (verit) mult_le_0_iff zero_less_power)
  have "log 2 (x * 2 ^ n) = log 2 x + real n"
    using pos by (simp add: log_mult log_nat_power)
  moreover have "52 \<le> log 2 (x * 2 ^ n)"
    using assms(1) pos by (simp add: le_log_iff powr_numeral flip: powr_realpow)
  moreover have "log 2 (x * 2 ^ n) < 53"
    using assms(2) pos by (simp add: log_less_iff powr_numeral flip: powr_realpow)
  ultimately show ?thesis
    by (intro floor_unique) simp_all
qed

lemma fl_val:
  assumes "n \<le> 1074" "2 ^ 52 \<le> \<bar>x\<bar> * 2 ^ n" "\<bar>x\<bar> * 2 ^ n < 2 ^ 53"
    and "\<bar>x * 2 ^ n - of_int m\<bar> < 1 / 2"
  shows "fl x = of_int m / 2 ^ n"
proof -
  have nz: "x \<noteq> 0" using assms(2) by auto
  have e: "max \<lfloor>log 2 \<bar>x\<bar>\<rfloor> (- 1022) - 52 = - int n"
    using floor_log2 [OF assms(2,3)] assms(1) by simp
  have p: "2 powr (real n) = (2::real) ^ n"
    by (simp add: powr_realpow)
  have q: "2 powr (- real n) = 1 / (2::real) ^ n"
    by (simp add: powr_minus powr_realpow divide_inverse)
  show ?thesis
    using nz by (simp add: fl_def e p q round_even_near [OF assms(4)])
qed

lemma round_even_tie:
  assumes "y = of_int f + 1 / 2"
  shows "round_even y = (if even f then f else f + 1)"
proof -
  have "\<lfloor>y\<rfloor> = f"
    using assms by (intro floor_unique) simp_all
  then show ?thesis
    using assms by (simp add: round_even_def Let_def)
qed

lemma fl_tie:
  assumes "n \<le> 1074" "2 ^ 52 \<le> \<bar>x\<bar> * 2 ^ n" "\<bar>x\<bar> * 2 ^ n < 2 ^ 53"
    and "x * 2 ^ n = of_int f + 1 / 2"
  shows "fl x = of_int (if even f then f else f + 1) / 2 ^ n"
proof -
  have nz: "x \<noteq> 0" using assms(2) by auto
  have e: "max \<lfloor>log 2 \<bar>x\<bar>\<rfloor> (- 1022) - 52 = - int n"
    using floor_log2 [OF assms(2,3)] assms(1) by simp
  have p: "2 powr (real n) = (2::real) ^ n"
    by (simp add: powr_realpow)
  have q: "2 powr (- real n) = 1 / (2::real) ^ n"
    by (simp add: powr_minus powr_realpow divide_inverse)
  show ?thesis
    using nz by (simp add: fl_def e p q round_even_tie [OF assms(4)])
qed

text \<open>
  The three Lab edges in doubles on the linear RGB value \<^verbatim>\<open>(2^-8, 0, 0)\<close>, one
  rounding at a time.
\<close>

lemma shortcut_in_doubles:
  "color_LinearRGB_to_Lab_d \<lparr>type = COLOR_LINEAR_RGB, extra = 0, payload = D3 (1 / 256) 0 0\<rparr> 0
     = Inr \<lparr>type = COLOR_LAB, extra = 0, payload = D3 (211187655192407 / 281474976710656) (947201041321461 / 281474976710656) (2669740947453475 / 2251799813685248)\<rparr>"
proof -
  have r1: "fdiv 10135552 23359437 = (7816364445837335 / 18014398509481984)"
    using fl_val [of 54 "10135552 / 23359437" 7816364445837335] by (simp add: fdiv_def)
  have r2: "fdiv 8788810 23359437 = (3388890018285123 / 9007199254740992)"
    using fl_val [of 54 "8788810 / 23359437" 6777780036570246] by (simp add: fdiv_def)
  have r3: "fdiv 4435075 23359437 = (3420254027074403 / 18014398509481984)"
    using fl_val [of 55 "4435075 / 23359437" 6840508054148806] by (simp add: fdiv_def)
  have r4: "fmul (1 / 256) (7816364445837335 / 18014398509481984) = (7816364445837335 / 4611686018427387904)"
    using fl_val [of 62 "(1 / 256) * (7816364445837335 / 18014398509481984)" 7816364445837335] by (simp add: fmul_def)
  have r5: "fmul 0 (3388890018285123 / 9007199254740992) = 0"
    by (simp add: fmul_def fl_def)
  have r6: "fadd (7816364445837335 / 4611686018427387904) 0 = (7816364445837335 / 4611686018427387904)"
    using fl_val [of 62 "(7816364445837335 / 4611686018427387904) + 0" 7816364445837335] by (simp add: fadd_def)
  have r7: "fmul 0 (3420254027074403 / 18014398509481984) = 0"
    by (simp add: fmul_def fl_def)
  have r8: "fdiv 871024 4096299 = (3830524443484969 / 18014398509481984)"
    using fl_val [of 55 "871024 / 4096299" 7661048886969938] by (simp add: fdiv_def)
  have r9: "fdiv 8788810 12288897 = (3220897810521977 / 4503599627370496)"
    using fl_val [of 53 "8788810 / 12288897" 6441795621043954] by (simp add: fdiv_def)
  have r10: "fdiv 887015 12288897 = (5201131295636431 / 72057594037927936)"
    using fl_val [of 56 "887015 / 12288897" 5201131295636431] by (simp add: fdiv_def)
  have r11: "fmul (1 / 256) (3830524443484969 / 18014398509481984) = (3830524443484969 / 4611686018427387904)"
    using fl_val [of 63 "(1 / 256) * (3830524443484969 / 18014398509481984)" 7661048886969938] by (simp add: fmul_def)
  have r12: "fmul 0 (3220897810521977 / 4503599627370496) = 0"
    by (simp add: fmul_def fl_def)
  have r13: "fadd (3830524443484969 / 4611686018427387904) 0 = (3830524443484969 / 4611686018427387904)"
    using fl_val [of 63 "(3830524443484969 / 4611686018427387904) + 0" 7661048886969938] by (simp add: fadd_def)
  have r14: "fmul 0 (5201131295636431 / 72057594037927936) = 0"
    by (simp add: fmul_def fl_def)
  have r15: "fdiv 158368 8920923 = (5116787602627473 / 288230376151711744)"
    using fl_val [of 58 "158368 / 8920923" 5116787602627473] by (simp add: fdiv_def)
  have r16: "fdiv 8788810 80288307 = (7887829831266481 / 72057594037927936)"
    using fl_val [of 56 "8788810 / 80288307" 7887829831266481] by (simp add: fdiv_def)
  have r17: "fdiv 70074185 80288307 = (7861320913250573 / 9007199254740992)"
    using fl_val [of 53 "70074185 / 80288307" 7861320913250573] by (simp add: fdiv_def)
  have r18: "fmul (1 / 256) (5116787602627473 / 288230376151711744) = (5116787602627473 / 73786976294838206464)"
    using fl_val [of 66 "(1 / 256) * (5116787602627473 / 288230376151711744)" 5116787602627473] by (simp add: fmul_def)
  have r19: "fmul 0 (7887829831266481 / 72057594037927936) = 0"
    by (simp add: fmul_def fl_def)
  have r20: "fadd (5116787602627473 / 73786976294838206464) 0 = (5116787602627473 / 73786976294838206464)"
    using fl_val [of 66 "(5116787602627473 / 73786976294838206464) + 0" 5116787602627473] by (simp add: fadd_def)
  have r21: "fmul 0 (7861320913250573 / 9007199254740992) = 0"
    by (simp add: fmul_def fl_def)
  have r22: "fdiv 216 24389 = (2552698398817899 / 288230376151711744)"
    using fl_val [of 59 "216 / 24389" 5105396797635798] by (simp add: fdiv_def)
  have r23: "fdiv 841 108 = (8767424274580063 / 1125899906842624)"
    using fl_val [of 50 "841 / 108" 8767424274580063] by (simp add: fdiv_def)
  have r24: "fmul (7816364445837335 / 4611686018427387904) (8767424274580063 / 1125899906842624) = (7608289929339351 / 576460752303423488)"
    using fl_val [of 59 "(7816364445837335 / 4611686018427387904) * (8767424274580063 / 1125899906842624)" 7608289929339351] by (simp add: fmul_def)
  have r25: "fdiv 4 29 = (2484744621997515 / 18014398509481984)"
    using fl_val [of 55 "4 / 29" 4969489243995030] by (simp add: fdiv_def)
  have r26: "fadd (7608289929339351 / 576460752303423488) (2484744621997515 / 18014398509481984) = (5445007364578739 / 36028797018963968)"
    using fl_val [of 55 "(7608289929339351 / 576460752303423488) + (2484744621997515 / 18014398509481984)" 5445007364578739] by (simp add: fadd_def)
  have r27: "fmul (3830524443484969 / 4611686018427387904) (8767424274580063 / 1125899906842624) = (7457108928173285 / 1152921504606846976)"
    using fl_val [of 60 "(3830524443484969 / 4611686018427387904) * (8767424274580063 / 1125899906842624)" 7457108928173285] by (simp add: fmul_def)
  have r28: "fadd (7457108928173285 / 1152921504606846976) (2484744621997515 / 18014398509481984) = (5202523898000445 / 36028797018963968)"
    using fl_val [of 55 "(7457108928173285 / 1152921504606846976) + (2484744621997515 / 18014398509481984)" 5202523898000445] by (simp add: fadd_def)
  have r29: "fmul (5116787602627473 / 73786976294838206464) (8767424274580063 / 1125899906842624) = (2490288410769505 / 4611686018427387904)"
    using fl_val [of 63 "(5116787602627473 / 73786976294838206464) * (8767424274580063 / 1125899906842624)" 4980576821539010] by (simp add: fmul_def)
  have r30: "fadd (2490288410769505 / 4611686018427387904) (2484744621997515 / 18014398509481984) = (4988944622204167 / 36028797018963968)"
    using fl_val [of 55 "(2490288410769505 / 4611686018427387904) + (2484744621997515 / 18014398509481984)" 4988944622204167] by (simp add: fadd_def)
  have r31: "fmul (5202523898000445 / 36028797018963968) 116 = (4714787282562903 / 281474976710656)"
    using fl_val [of 48 "(5202523898000445 / 36028797018963968) * 116" 4714787282562903] by (simp add: fmul_def)
  have r32: "fsub (4714787282562903 / 281474976710656) 16 = (211187655192407 / 281474976710656)"
    using fl_val [of 53 "(4714787282562903 / 281474976710656) - 16" 6758004966157024] by (simp add: fsub_def)
  have r33: "fsub (5445007364578739 / 36028797018963968) (5202523898000445 / 36028797018963968) = (121241733289147 / 18014398509481984)"
    using fl_val [of 60 "(5445007364578739 / 36028797018963968) - (5202523898000445 / 36028797018963968)" 7759470930505408] by (simp add: fsub_def)
  have r34: "fmul (121241733289147 / 18014398509481984) 500 = (947201041321461 / 281474976710656)"
    using fl_tie [of 51 "(121241733289147 / 18014398509481984) * 500" 7577608330571687] by (simp add: fmul_def)
  have r35: "fsub (5202523898000445 / 36028797018963968) (4988944622204167 / 36028797018963968) = (106789637898139 / 18014398509481984)"
    using fl_val [of 60 "(5202523898000445 / 36028797018963968) - (4988944622204167 / 36028797018963968)" 6834536825480896] by (simp add: fsub_def)
  have r36: "fmul (106789637898139 / 18014398509481984) 200 = (2669740947453475 / 2251799813685248)"
    using fl_val [of 52 "(106789637898139 / 18014398509481984) * 200" 5339481894906950] by (simp add: fmul_def)
  show ?thesis
    by (simp add: color_LinearRGB_to_Lab_d_def xyz_to_lab_d_def Let_def r1 r2 r3 r4 r5 r6 r7 r8 r9 r10 r11 r12 r13 r14 r15 r16 r17 r18 r19 r20 r21 r22 r23 r24 r25 r26 r27 r28 r29 r30 r31 r32 r33 r34 r35 r36)
qed

lemma first_hop_in_doubles:
  "color_LinearRGB_to_XYZ_d \<lparr>type = COLOR_LINEAR_RGB, extra = 0, payload = D3 (1 / 256) 0 0\<rparr> 0
     = Inr \<lparr>type = COLOR_XYZ, extra = 0, payload = D3 (1857223972598773 / 1152921504606846976) (3830524443484969 / 4611686018427387904) (5571671917796319 / 73786976294838206464)\<rparr>"
proof -
  have r1: "fdiv 5067776 12288897 = (1857223972598773 / 4503599627370496)"
    using fl_val [of 54 "5067776 / 12288897" 7428895890395092] by (simp add: fdiv_def)
  have r2: "fdiv 4394405 12288897 = (3220897810521977 / 9007199254740992)"
    using fl_val [of 54 "4394405 / 12288897" 6441795621043954] by (simp add: fdiv_def)
  have r3: "fdiv 4435075 24577794 = (6501414119545539 / 36028797018963968)"
    using fl_val [of 55 "4435075 / 24577794" 6501414119545539] by (simp add: fdiv_def)
  have r4: "fmul (1 / 256) (1857223972598773 / 4503599627370496) = (1857223972598773 / 1152921504606846976)"
    using fl_val [of 62 "(1 / 256) * (1857223972598773 / 4503599627370496)" 7428895890395092] by (simp add: fmul_def)
  have r5: "fmul 0 (3220897810521977 / 9007199254740992) = 0"
    by (simp add: fmul_def fl_def)
  have r6: "fadd (1857223972598773 / 1152921504606846976) 0 = (1857223972598773 / 1152921504606846976)"
    using fl_val [of 62 "(1857223972598773 / 1152921504606846976) + 0" 7428895890395092] by (simp add: fadd_def)
  have r7: "fmul 0 (6501414119545539 / 36028797018963968) = 0"
    by (simp add: fmul_def fl_def)
  have r8: "fdiv 871024 4096299 = (3830524443484969 / 18014398509481984)"
    using fl_val [of 55 "871024 / 4096299" 7661048886969938] by (simp add: fdiv_def)
  have r9: "fdiv 8788810 12288897 = (3220897810521977 / 4503599627370496)"
    using fl_val [of 53 "8788810 / 12288897" 6441795621043954] by (simp add: fdiv_def)
  have r10: "fdiv 887015 12288897 = (5201131295636431 / 72057594037927936)"
    using fl_val [of 56 "887015 / 12288897" 5201131295636431] by (simp add: fdiv_def)
  have r11: "fmul (1 / 256) (3830524443484969 / 18014398509481984) = (3830524443484969 / 4611686018427387904)"
    using fl_val [of 63 "(1 / 256) * (3830524443484969 / 18014398509481984)" 7661048886969938] by (simp add: fmul_def)
  have r12: "fmul 0 (3220897810521977 / 4503599627370496) = 0"
    by (simp add: fmul_def fl_def)
  have r13: "fadd (3830524443484969 / 4611686018427387904) 0 = (3830524443484969 / 4611686018427387904)"
    using fl_val [of 63 "(3830524443484969 / 4611686018427387904) + 0" 7661048886969938] by (simp add: fadd_def)
  have r14: "fmul 0 (5201131295636431 / 72057594037927936) = 0"
    by (simp add: fmul_def fl_def)
  have r15: "fdiv 79184 4096299 = (5571671917796319 / 288230376151711744)"
    using fl_val [of 58 "79184 / 4096299" 5571671917796319] by (simp add: fdiv_def)
  have r16: "fdiv 4394405 36866691 = (8589060828058605 / 72057594037927936)"
    using fl_val [of 56 "4394405 / 36866691" 8589060828058605] by (simp add: fdiv_def)
  have r17: "fdiv 70074185 73733382 = (4280097628700813 / 4503599627370496)"
    using fl_val [of 53 "70074185 / 73733382" 8560195257401626] by (simp add: fdiv_def)
  have r18: "fmul (1 / 256) (5571671917796319 / 288230376151711744) = (5571671917796319 / 73786976294838206464)"
    using fl_val [of 66 "(1 / 256) * (5571671917796319 / 288230376151711744)" 5571671917796319] by (simp add: fmul_def)
  have r19: "fmul 0 (8589060828058605 / 72057594037927936) = 0"
    by (simp add: fmul_def fl_def)
  have r20: "fadd (5571671917796319 / 73786976294838206464) 0 = (5571671917796319 / 73786976294838206464)"
    using fl_val [of 66 "(5571671917796319 / 73786976294838206464) + 0" 5571671917796319] by (simp add: fadd_def)
  have r21: "fmul 0 (4280097628700813 / 4503599627370496) = 0"
    by (simp add: fmul_def fl_def)
  show ?thesis
    by (simp add: color_LinearRGB_to_XYZ_d_def Let_def r1 r2 r3 r4 r5 r6 r7 r8 r9 r10 r11 r12 r13 r14 r15 r16 r17 r18 r19 r20 r21)
qed

lemma second_hop_in_doubles:
  "color_XYZ_to_Lab_d \<lparr>type = COLOR_XYZ, extra = 0, payload = D3 (1857223972598773 / 1152921504606846976) (3830524443484969 / 4611686018427387904) (5571671917796319 / 73786976294838206464)\<rparr> 0
     = Inr \<lparr>type = COLOR_LAB, extra = 0, payload = D3 (211187655192407 / 281474976710656) (7577608330571719 / 2251799813685248) (2669740947453475 / 2251799813685248)\<rparr>"
proof -
  have r1: "fdiv 3377268 401223439 = (1213078712987577 / 144115188075855872)"
    using fl_val [of 59 "3377268 / 401223439" 4852314851950308] by (simp add: fdiv_def)
  have r2: "fdiv 216 24389 = (2552698398817899 / 288230376151711744)"
    using fl_val [of 59 "216 / 24389" 5105396797635798] by (simp add: fdiv_def)
  have r3: "fdiv 3869316 401223439 = (2779634233008597 / 288230376151711744)"
    using fl_val [of 59 "3869316 / 401223439" 5559268466017194] by (simp add: fdiv_def)
  have r4: "fdiv 13835291 1688634 = (1153088298592279 / 140737488355328)"
    using fl_val [of 49 "13835291 / 1688634" 4612353194369116] by (simp add: fdiv_def)
  have r5: "fmul (1857223972598773 / 1152921504606846976) (1153088298592279 / 140737488355328) = (951036241167419 / 72057594037927936)"
    using fl_val [of 59 "(1857223972598773 / 1152921504606846976) * (1153088298592279 / 140737488355328)" 7608289929339352] by (simp add: fmul_def)
  have r6: "fdiv 4 29 = (2484744621997515 / 18014398509481984)"
    using fl_val [of 55 "4 / 29" 4969489243995030] by (simp add: fdiv_def)
  have r7: "fadd (951036241167419 / 72057594037927936) (2484744621997515 / 18014398509481984) = (1361251841144685 / 9007199254740992)"
    using fl_tie [of 55 "(951036241167419 / 72057594037927936) + (2484744621997515 / 18014398509481984)" 5445007364578739] by (simp add: fadd_def)
  have r8: "fdiv 841 108 = (8767424274580063 / 1125899906842624)"
    using fl_val [of 50 "841 / 108" 8767424274580063] by (simp add: fdiv_def)
  have r9: "fmul (3830524443484969 / 4611686018427387904) (8767424274580063 / 1125899906842624) = (7457108928173285 / 1152921504606846976)"
    using fl_val [of 60 "(3830524443484969 / 4611686018427387904) * (8767424274580063 / 1125899906842624)" 7457108928173285] by (simp add: fmul_def)
  have r10: "fadd (7457108928173285 / 1152921504606846976) (2484744621997515 / 18014398509481984) = (5202523898000445 / 36028797018963968)"
    using fl_val [of 55 "(7457108928173285 / 1152921504606846976) + (2484744621997515 / 18014398509481984)" 5202523898000445] by (simp add: fadd_def)
  have r11: "fdiv 13835291 1934658 = (4025815634608441 / 562949953421312)"
    using fl_val [of 50 "13835291 / 1934658" 8051631269216882] by (simp add: fdiv_def)
  have r12: "fmul (5571671917796319 / 73786976294838206464) (4025815634608441 / 562949953421312) = (4980576821539011 / 9223372036854775808)"
    using fl_val [of 63 "(5571671917796319 / 73786976294838206464) * (4025815634608441 / 562949953421312)" 4980576821539011] by (simp add: fmul_def)
  have r13: "fadd (4980576821539011 / 9223372036854775808) (2484744621997515 / 18014398509481984) = (4988944622204167 / 36028797018963968)"
    using fl_val [of 55 "(4980576821539011 / 9223372036854775808) + (2484744621997515 / 18014398509481984)" 4988944622204167] by (simp add: fadd_def)
  have r14: "fmul (5202523898000445 / 36028797018963968) 116 = (4714787282562903 / 281474976710656)"
    using fl_val [of 48 "(5202523898000445 / 36028797018963968) * 116" 4714787282562903] by (simp add: fmul_def)
  have r15: "fsub (4714787282562903 / 281474976710656) 16 = (211187655192407 / 281474976710656)"
    using fl_val [of 53 "(4714787282562903 / 281474976710656) - 16" 6758004966157024] by (simp add: fsub_def)
  have r16: "fsub (1361251841144685 / 9007199254740992) (5202523898000445 / 36028797018963968) = (242483466578295 / 36028797018963968)"
    using fl_val [of 60 "(1361251841144685 / 9007199254740992) - (5202523898000445 / 36028797018963968)" 7759470930505440] by (simp add: fsub_def)
  have r17: "fmul (242483466578295 / 36028797018963968) 500 = (7577608330571719 / 2251799813685248)"
    using fl_val [of 51 "(242483466578295 / 36028797018963968) * 500" 7577608330571719] by (simp add: fmul_def)
  have r18: "fsub (5202523898000445 / 36028797018963968) (4988944622204167 / 36028797018963968) = (106789637898139 / 18014398509481984)"
    using fl_val [of 60 "(5202523898000445 / 36028797018963968) - (4988944622204167 / 36028797018963968)" 6834536825480896] by (simp add: fsub_def)
  have r19: "fmul (106789637898139 / 18014398509481984) 200 = (2669740947453475 / 2251799813685248)"
    using fl_val [of 52 "(106789637898139 / 18014398509481984) * 200" 5339481894906950] by (simp add: fmul_def)
  show ?thesis
    by (simp add: color_XYZ_to_Lab_d_def Let_def r1 r2 r3 r4 r5 r6 r7 r8 r9 r10 r11 r12 r13 r14 r15 r16 r17 r18 r19)
qed

text \<open>
  Claim C10 as stated fails in doubles. On the linear RGB value \<^verbatim>\<open>(2^-8, 0, 0)\<close>, with
  all three components on the linear segment so that \<^verbatim>\<open>pow\<close> is not called, the
  shortcut returns a = 3.365134096076833 and the two hops return a = 3.3651340960768468;
  L and b are the same on both paths.
\<close>

theorem Lab_shortcut_doubles_counterexample:
  "color_LinearRGB_to_Lab_d
       \<lparr>type = COLOR_LINEAR_RGB, extra = 0, payload = D3 (1 / 256) 0 0\<rparr> 0
     = Inr \<lparr>type = COLOR_LAB, extra = 0, payload = D3
            (211187655192407 / 281474976710656)
            (947201041321461 / 281474976710656)
            (2669740947453475 / 2251799813685248)\<rparr>
   \<and> (case color_LinearRGB_to_XYZ_d
             \<lparr>type = COLOR_LINEAR_RGB, extra = 0, payload = D3 (1 / 256) 0 0\<rparr> 0 of
         Inl err \<Rightarrow> Inl err
       | Inr c1 \<Rightarrow> color_XYZ_to_Lab_d c1 0)
     = Inr \<lparr>type = COLOR_LAB, extra = 0, payload = D3
            (211187655192407 / 281474976710656)
            (7577608330571719 / 2251799813685248)
            (2669740947453475 / 2251799813685248)\<rparr>
   \<and> color_LinearRGB_to_Lab_d
       \<lparr>type = COLOR_LINEAR_RGB, extra = 0, payload = D3 (1 / 256) 0 0\<rparr> 0
     \<noteq> (case color_LinearRGB_to_XYZ_d
               \<lparr>type = COLOR_LINEAR_RGB, extra = 0, payload = D3 (1 / 256) 0 0\<rparr> 0 of
           Inl err \<Rightarrow> Inl err
         | Inr c1 \<Rightarrow> color_XYZ_to_Lab_d c1 0)"
  by (simp add: shortcut_in_doubles first_hop_in_doubles second_hop_in_doubles)

section \<open>The routing loop\<close>

lemmas edge_runs =
  color_RGB8_to_RGB_runs color_RGB8_to_LinearRGB_runs color_RGB_to_RGB8_runs
  color_RGB_to_LinearRGB_runs color_RGB_to_HSL_runs color_RGB_to_HSV_runs color_RGB_to_YUV_runs
  color_RGB_to_YDbDr_runs color_RGB_to_YIQ_runs color_LinearRGB_to_RGB8_runs
  color_LinearRGB_to_RGB_runs color_LinearRGB_to_XYZ_runs color_LinearRGB_to_Lab_runs
  color_YUV_to_RGB_runs color_YUV_to_YUV_runs
  color_YUV_to_YCbCr_runs color_YCbCr_to_YUV_runs color_YCbCr_to_YCbCr_runs
  color_YDbDr_to_RGB_runs color_YDbDr_to_YIQ_runs color_YIQ_to_RGB_runs color_YIQ_to_YDbDr_runs
  color_XYZ_to_LinearRGB_runs color_XYZ_to_xyY_runs color_XYZ_to_Lab_runs color_XYZ_to_Luv_runs
  color_xyY_to_XYZ_runs color_Lab_to_LinearRGB_runs color_Lab_to_XYZ_runs
  color_Lab_to_LCHab_runs color_Luv_to_XYZ_runs color_Luv_to_LCHuv_runs color_LCHab_to_Lab_runs
  color_LCHuv_to_Luv_runs color_LCHuv_to_LSHuv_runs color_LSHuv_to_LCHuv_runs

lemmas edge_simps =
  edge_runs [THEN runs_case] edge_runs [THEN runs_type] edge_runs [THEN runs_extra]
  edge_runs [THEN runs_layout]

lemmas desc_defs =
  g_descriptors_def desc_RGB8_def desc_RGB_def desc_LINEAR_RGB_def desc_HSL_def desc_HSV_def
  desc_YUV_def desc_YCBCR_def desc_YDBDR_def desc_YIQ_def desc_XYZ_def desc_XYY_def
  desc_LAB_def desc_LUV_def desc_LCHAB_def desc_LCHUV_def desc_LSHUV_def

lemmas step_simps = convert_step_def valid_type_def desc_defs edge_simps

text \<open>
  Seven passes of the loop body are enough from every space, by running the loop on a
  value of which only the tag and the flags are known. From HSL and HSV the first edge
  goes through \<^verbatim>\<open>finish_HSL_to_RGB\<close>, and the run may stop at its assertion.
\<close>

lemma reach_from_RGB8:
  "type c = COLOR_RGB8 \<Longrightarrow> layout_ok c \<Longrightarrow> settled (type c) (extra c) \<Longrightarrow>
   valid_type nt \<Longrightarrow> settled nt ne \<Longrightarrow>
   \<exists>c' hops. convert_loop (Suc (Suc (Suc (Suc (Suc (Suc (Suc 0))))))) c nt ne [] = Some (Inr (c', hops))
      \<and> type c' = nt \<and> extra c' = ne \<and> length hops \<le> 7"
  by (cases nt; simp add: settled_def step_simps)

lemma reach_from_RGB:
  "type c = COLOR_RGB \<Longrightarrow> layout_ok c \<Longrightarrow> settled (type c) (extra c) \<Longrightarrow>
   valid_type nt \<Longrightarrow> settled nt ne \<Longrightarrow>
   \<exists>c' hops. convert_loop (Suc (Suc (Suc (Suc (Suc (Suc (Suc 0))))))) c nt ne [] = Some (Inr (c', hops))
      \<and> type c' = nt \<and> extra c' = ne \<and> length hops \<le> 7"
  by (cases nt; simp add: settled_def step_simps)

lemma reach_from_LINEAR_RGB:
  "type c = COLOR_LINEAR_RGB \<Longrightarrow> layout_ok c \<Longrightarrow> settled (type c) (extra c) \<Longrightarrow>
   valid_type nt \<Longrightarrow> settled nt ne \<Longrightarrow>
   \<exists>c' hops. convert_loop (Suc (Suc (Suc (Suc (Suc (Suc (Suc 0))))))) c nt ne [] = Some (Inr (c', hops))
      \<and> type c' = nt \<and> extra c' = ne \<and> length hops \<le> 7"
  by (cases nt; simp add: settled_def step_simps)

lemma reach_from_HSL:
  assumes t: "type c = COLOR_HSL" and l: "layout_ok c" and s: "settled (type c) (extra c)"
    and v: "valid_type nt" and sn: "settled nt ne"
  shows "(\<exists>c' hops. convert_loop (Suc (Suc (Suc (Suc (Suc (Suc (Suc 0))))))) c nt ne [] = Some (Inr (c', hops))
            \<and> type c' = nt \<and> extra c' = ne \<and> length hops \<le> 7)
         \<or> convert_loop (Suc (Suc (Suc (Suc (Suc (Suc (Suc 0))))))) c nt ne [] = Some (Inl Assert_hue_idx)"
  using color_HSL_to_RGB_outcome [OF t l]
proof
  assume "\<forall>e. color_HSL_to_RGB c e = Inl Assert_hue_idx"
  then have e: "\<And>e. color_HSL_to_RGB c e = Inl Assert_hue_idx"
    by simp
  show ?thesis
    using t s v sn by (cases nt; simp add: settled_def step_simps e)
next
  assume "\<forall>e. runs color_HSL_to_RGB c e COLOR_RGB (extra c)"
  then have r: "\<And>e. runs color_HSL_to_RGB c e COLOR_RGB (extra c)"
    by simp
  note rs = runs_case [OF r] runs_type [OF r] runs_extra [OF r] runs_layout [OF r]
  show ?thesis
    using t l s v sn by (cases nt; simp add: settled_def step_simps rs)
qed

lemma reach_from_HSV:
  assumes t: "type c = COLOR_HSV" and l: "layout_ok c" and s: "settled (type c) (extra c)"
    and v: "valid_type nt" and sn: "settled nt ne"
  shows "(\<exists>c' hops. convert_loop (Suc (Suc (Suc (Suc (Suc (Suc (Suc 0))))))) c nt ne [] = Some (Inr (c', hops))
            \<and> type c' = nt \<and> extra c' = ne \<and> length hops \<le> 7)
         \<or> convert_loop (Suc (Suc (Suc (Suc (Suc (Suc (Suc 0))))))) c nt ne [] = Some (Inl Assert_hue_idx)"
  using color_HSV_to_RGB_outcome [OF t l]
proof
  assume "\<forall>e. color_HSV_to_RGB c e = Inl Assert_hue_idx"
  then have e: "\<And>e. color_HSV_to_RGB c e = Inl Assert_hue_idx"
    by simp
  show ?thesis
    using t s v sn by (cases nt; simp add: settled_def step_simps e)
next
  assume "\<forall>e. runs color_HSV_to_RGB c e COLOR_RGB (extra c)"
  then have r: "\<And>e. runs color_HSV_to_RGB c e COLOR_RGB (extra c)"
    by simp
  note rs = runs_case [OF r] runs_type [OF r] runs_extra [OF r] runs_layout [OF r]
  show ?thesis
    using t l s v sn by (cases nt; simp add: settled_def step_simps rs)
qed

lemma reach_from_YUV:
  "type c = COLOR_YUV \<Longrightarrow> layout_ok c \<Longrightarrow> settled (type c) (extra c) \<Longrightarrow>
   valid_type nt \<Longrightarrow> settled nt ne \<Longrightarrow>
   \<exists>c' hops. convert_loop (Suc (Suc (Suc (Suc (Suc (Suc (Suc 0))))))) c nt ne [] = Some (Inr (c', hops))
      \<and> type c' = nt \<and> extra c' = ne \<and> length hops \<le> 7"
  by (cases nt; simp add: settled_def step_simps)

lemma reach_from_YCBCR:
  "type c = COLOR_YCBCR \<Longrightarrow> layout_ok c \<Longrightarrow> settled (type c) (extra c) \<Longrightarrow>
   valid_type nt \<Longrightarrow> settled nt ne \<Longrightarrow>
   \<exists>c' hops. convert_loop (Suc (Suc (Suc (Suc (Suc (Suc (Suc 0))))))) c nt ne [] = Some (Inr (c', hops))
      \<and> type c' = nt \<and> extra c' = ne \<and> length hops \<le> 7"
  by (cases nt; simp add: settled_def step_simps)

lemma reach_from_YDBDR:
  "type c = COLOR_YDBDR \<Longrightarrow> layout_ok c \<Longrightarrow> settled (type c) (extra c) \<Longrightarrow>
   valid_type nt \<Longrightarrow> settled nt ne \<Longrightarrow>
   \<exists>c' hops. convert_loop (Suc (Suc (Suc (Suc (Suc (Suc (Suc 0))))))) c nt ne [] = Some (Inr (c', hops))
      \<and> type c' = nt \<and> extra c' = ne \<and> length hops \<le> 7"
  by (cases nt; simp add: settled_def step_simps)

lemma reach_from_YIQ:
  "type c = COLOR_YIQ \<Longrightarrow> layout_ok c \<Longrightarrow> settled (type c) (extra c) \<Longrightarrow>
   valid_type nt \<Longrightarrow> settled nt ne \<Longrightarrow>
   \<exists>c' hops. convert_loop (Suc (Suc (Suc (Suc (Suc (Suc (Suc 0))))))) c nt ne [] = Some (Inr (c', hops))
      \<and> type c' = nt \<and> extra c' = ne \<and> length hops \<le> 7"
  by (cases nt; simp add: settled_def step_simps)

lemma reach_from_XYZ:
  "type c = COLOR_XYZ \<Longrightarrow> layout_ok c \<Longrightarrow> settled (type c) (extra c) \<Longrightarrow>
   valid_type nt \<Longrightarrow> settled nt ne \<Longrightarrow>
   \<exists>c' hops. convert_loop (Suc (Suc (Suc (Suc (Suc (Suc (Suc 0))))))) c nt ne [] = Some (Inr (c', hops))
      \<and> type c' = nt \<and> extra c' = ne \<and> length hops \<le> 7"
  by (cases nt; simp add: settled_def step_simps)

lemma reach_from_XYY:
  "type c = COLOR_XYY \<Longrightarrow> layout_ok c \<Longrightarrow> settled (type c) (extra c) \<Longrightarrow>
   valid_type nt \<Longrightarrow> settled nt ne \<Longrightarrow>
   \<exists>c' hops. convert_loop (Suc (Suc (Suc (Suc (Suc (Suc (Suc 0))))))) c nt ne [] = Some (Inr (c', hops))
      \<and> type c' = nt \<and> extra c' = ne \<and> length hops \<le> 7"
  by (cases nt; simp add: settled_def step_simps)

lemma reach_from_LAB:
  "type c = COLOR_LAB \<Longrightarrow> layout_ok c \<Longrightarrow> settled (type c) (extra c) \<Longrightarrow>
   valid_type nt \<Longrightarrow> settled nt ne \<Longrightarrow>
   \<exists>c' hops. convert_loop (Suc (Suc (Suc (Suc (Suc (Suc (Suc 0))))))) c nt ne [] = Some (Inr (c', hops))
      \<and> type c' = nt \<and> extra c' = ne \<and> length hops \<le> 7"
  by (cases nt; simp add: settled_def step_simps)

lemma reach_from_LUV:
  "type c = COLOR_LUV \<Longrightarrow> layout_ok c \<Longrightarrow> settled (type c) (extra c) \<Longrightarrow>
   valid_type nt \<Longrightarrow> settled nt ne \<Longrightarrow>
   \<exists>c' hops. convert_loop (Suc (Suc (Suc (Suc (Suc (Suc (Suc 0))))))) c nt ne [] = Some (Inr (c', hops))
      \<and> type c' = nt \<and> extra c' = ne \<and> length hops \<le> 7"
  by (cases nt; simp add: settled_def step_simps)

lemma reach_from_LCHAB:
  "type c = COLOR_LCHAB \<Longrightarrow> layout_ok c \<Longrightarrow> settled (type c) (extra c) \<Longrightarrow>
   valid_type nt \<Longrightarrow> settled nt ne \<Longrightarrow>
   \<exists>c' hops. convert_loop (Suc (Suc (Suc (Suc (Suc (Suc (Suc 0))))))) c nt ne [] = Some (Inr (c', hops))
      \<and> type c' = nt \<and> extra c' = ne \<and> length hops \<le> 7"
  by (cases nt; simp add: settled_def step_simps)

lemma reach_from_LCHUV:
  "type c = COLOR_LCHUV \<Longrightarrow> layout_ok c \<Longrightarrow> settled (type c) (extra c) \<Longrightarrow>
   valid_type nt \<Longrightarrow> settled nt ne \<Longrightarrow>
   \<exists>c' hops. convert_loop (Suc (Suc (Suc (Suc (Suc (Suc (Suc 0))))))) c nt ne [] = Some (Inr (c', hops))
      \<and> type c' = nt \<and> extra c' = ne \<and> length hops \<le> 7"
  by (cases nt; simp add: settled_def step_simps)

lemma reach_from_LSHUV:
  "type c = COLOR_LSHUV \<Longrightarrow> layout_ok c \<Longrightarrow> settled (type c) (extra c) \<Longrightarrow>
   valid_type nt \<Longrightarrow> settled nt ne \<Longrightarrow>
   \<exists>c' hops. convert_loop (Suc (Suc (Suc (Suc (Suc (Suc (Suc 0))))))) c nt ne [] = Some (Inr (c', hops))
      \<and> type c' = nt \<and> extra c' = ne \<and> length hops \<le> 7"
  by (cases nt; simp add: settled_def step_simps)

lemma reach:
  assumes "valid_type (type c)" "layout_ok c" "settled (type c) (extra c)"
    "valid_type nt" "settled nt ne"
  shows "(\<exists>c' hops. convert_loop 7 c nt ne [] = Some (Inr (c', hops))
            \<and> type c' = nt \<and> extra c' = ne \<and> length hops \<le> 7)
         \<or> convert_loop 7 c nt ne [] = Some (Inl Assert_hue_idx)"
proof -
  have 7: "(7 :: nat) = Suc (Suc (Suc (Suc (Suc (Suc (Suc 0))))))"
    by simp
  have "(\<exists>c' hops. convert_loop (Suc (Suc (Suc (Suc (Suc (Suc (Suc 0))))))) c nt ne [] = Some (Inr (c', hops))
            \<and> type c' = nt \<and> extra c' = ne \<and> length hops \<le> 7)
         \<or> convert_loop (Suc (Suc (Suc (Suc (Suc (Suc (Suc 0))))))) c nt ne [] = Some (Inl Assert_hue_idx)"
  proof (cases "type c")
    case COLOR_NONE
    with assms(1) show ?thesis by (simp add: valid_type_def)
  next
    case COLOR_DUMMY_END
    with assms(1) show ?thesis by (simp add: valid_type_def)
  next
    case COLOR_RGB8
    from reach_from_RGB8 [OF this assms(2-5)] show ?thesis ..
  next
    case COLOR_RGB
    from reach_from_RGB [OF this assms(2-5)] show ?thesis ..
  next
    case COLOR_LINEAR_RGB
    from reach_from_LINEAR_RGB [OF this assms(2-5)] show ?thesis ..
  next
    case COLOR_HSL
    from reach_from_HSL [OF this assms(2-5)] show ?thesis .
  next
    case COLOR_HSV
    from reach_from_HSV [OF this assms(2-5)] show ?thesis .
  next
    case COLOR_YUV
    from reach_from_YUV [OF this assms(2-5)] show ?thesis ..
  next
    case COLOR_YCBCR
    from reach_from_YCBCR [OF this assms(2-5)] show ?thesis ..
  next
    case COLOR_YDBDR
    from reach_from_YDBDR [OF this assms(2-5)] show ?thesis ..
  next
    case COLOR_YIQ
    from reach_from_YIQ [OF this assms(2-5)] show ?thesis ..
  next
    case COLOR_XYZ
    from reach_from_XYZ [OF this assms(2-5)] show ?thesis ..
  next
    case COLOR_XYY
    from reach_from_XYY [OF this assms(2-5)] show ?thesis ..
  next
    case COLOR_LAB
    from reach_from_LAB [OF this assms(2-5)] show ?thesis ..
  next
    case COLOR_LUV
    from reach_from_LUV [OF this assms(2-5)] show ?thesis ..
  next
    case COLOR_LCHAB
    from reach_from_LCHAB [OF this assms(2-5)] show ?thesis ..
  next
    case COLOR_LCHUV
    from reach_from_LCHUV [OF this assms(2-5)] show ?thesis ..
  next
    case COLOR_LSHUV
    from reach_from_LSHUV [OF this assms(2-5)] show ?thesis ..
  qed
  then show ?thesis
    by (simp only: 7 [symmetric])
qed

text \<open>A run that has left the loop does the same with any larger fuel.\<close>

lemma convert_loop_more_fuel:
  "convert_loop n c nt ne hops = Some r \<Longrightarrow> convert_loop (n + k) c nt ne hops = Some r"
proof (induction n arbitrary: c hops)
  case 0
  then show ?case
    by (cases k) (auto split: if_splits)
next
  case (Suc n)
  show ?case
  proof (cases "type c \<noteq> nt \<or> extra c \<noteq> ne")
    case False
    then show ?thesis using Suc.prems by auto
  next
    case True
    show ?thesis
    proof (cases "convert_step c nt ne")
      case (Inl err)
      then show ?thesis using True Suc.prems by simp
    next
      case (Inr p)
      obtain c' h where p: "p = (c', h)" by (cases p)
      from Suc.prems True Inr p have "convert_loop n c' nt ne (hops @ [h]) = Some r"
        by simp
      from Suc.IH [OF this] show ?thesis
        using True Inr p by simp
    qed
  qed
qed

lemma convert_loop_fuel_le:
  "convert_loop n c nt ne hops = Some r \<Longrightarrow> n \<le> m \<Longrightarrow> convert_loop m c nt ne hops = Some r"
  using convert_loop_more_fuel [of n c nt ne hops r "m - n"] by simp

text \<open>
  What one pass of the loop body can do to a value that is laid out as its tag says:
  fail one of the two assertions on a tag, stop at the index assertion of
  \<^verbatim>\<open>finish_HSL_to_RGB\<close>, or apply an edge of the table.
\<close>

lemma step_outcome:
  assumes l: "layout_ok c" and v: "valid_type nt" and go: "type c \<noteq> nt \<or> extra c \<noteq> ne"
  shows "convert_step c nt ne = Inl Assert_cur_type
         \<or> convert_step c nt ne = Inl Assert_proxy_type
         \<or> convert_step c nt ne = Inl Assert_hue_idx
         \<or> (\<exists>c'. convert_step c nt ne = Inr (c', (type c, type c')) \<and> layout_ok c')"
proof (cases "type c = COLOR_HSL \<or> type c = COLOR_HSV")
  case False
  then show ?thesis
    using l v go by (cases "type c"; cases nt; simp add: step_simps)
next
  case True
  then show ?thesis
  proof
    assume t: "type c = COLOR_HSL"
    from color_HSL_to_RGB_outcome [OF t l] show ?thesis
    proof
      assume "\<forall>e. color_HSL_to_RGB c e = Inl Assert_hue_idx"
      then have e: "\<And>e. color_HSL_to_RGB c e = Inl Assert_hue_idx"
        by simp
      show ?thesis
        using t v go by (cases nt; simp add: step_simps e)
    next
      assume "\<forall>e. runs color_HSL_to_RGB c e COLOR_RGB (extra c)"
      then have r: "\<And>e. runs color_HSL_to_RGB c e COLOR_RGB (extra c)"
        by simp
      note rs = runs_case [OF r] runs_type [OF r] runs_extra [OF r] runs_layout [OF r]
      show ?thesis
        using t l v go by (cases nt; simp add: step_simps rs)
    qed
  next
    assume t: "type c = COLOR_HSV"
    from color_HSV_to_RGB_outcome [OF t l] show ?thesis
    proof
      assume "\<forall>e. color_HSV_to_RGB c e = Inl Assert_hue_idx"
      then have e: "\<And>e. color_HSV_to_RGB c e = Inl Assert_hue_idx"
        by simp
      show ?thesis
        using t v go by (cases nt; simp add: step_simps e)
    next
      assume "\<forall>e. runs color_HSV_to_RGB c e COLOR_RGB (extra c)"
      then have r: "\<And>e. runs color_HSV_to_RGB c e COLOR_RGB (extra c)"
        by simp
      note rs = runs_case [OF r] runs_type [OF r] runs_extra [OF r] runs_layout [OF r]
      show ?thesis
        using t l v go by (cases nt; simp add: step_simps rs)
    qed
  qed
qed

lemma loop_errors:
  "layout_ok c \<Longrightarrow> valid_type nt \<Longrightarrow> convert_loop fuel c nt ne hops = Some (Inl err) \<Longrightarrow>
   err = Assert_cur_type \<or> err = Assert_proxy_type \<or> err = Assert_hue_idx"
proof (induction fuel arbitrary: c hops)
  case 0
  then show ?case by (simp split: if_splits)
next
  case (Suc fuel)
  from Suc.prems(3) have go: "type c \<noteq> nt \<or> extra c \<noteq> ne"
    by (auto split: if_splits)
  from step_outcome [OF Suc.prems(1,2) go] show ?case
  proof (elim disjE exE conjE)
    assume "convert_step c nt ne = Inl Assert_cur_type"
    with Suc.prems(3) go show ?thesis by simp
  next
    assume "convert_step c nt ne = Inl Assert_proxy_type"
    with Suc.prems(3) go show ?thesis by simp
  next
    assume "convert_step c nt ne = Inl Assert_hue_idx"
    with Suc.prems(3) go show ?thesis by simp
  next
    fix c'
    assume s: "convert_step c nt ne = Inr (c', (type c, type c'))" and l: "layout_ok c'"
    with Suc.prems(3) go
    have "convert_loop fuel c' nt ne (hops @ [(type c, type c')]) = Some (Inl err)"
      by simp
    from Suc.IH [OF l Suc.prems(2) this] show ?thesis .
  qed
qed

section \<open>Properties of the routing engine\<close>

lemma hue_wraps_to_six: "fadd (- (1 / 2 ^ 52)) 6 = 6"
  using fl_val [of 50 "- (1 / 2 ^ 52) + 6" "6 * 2 ^ 50"] by (simp add: fadd_def)

text \<open>
  Claim C1. The claim has \<^verbatim>\<open>color_convert\<close> return, with the requested tag and flags
  and no error signalled, for every value of a valid space and every target. The source
  does not: the RGB value \<^verbatim>\<open>(1, 0.5, 0.5 + 2^-53)\<close>, flags 0, converts to the HSL
  value of hue \<^verbatim>\<open>-2^-52\<close>, saturation 1 and lightness 0.75, and converting that
  value back to RGB, flags 0, wraps the hue to \<open>h + 6\<close>, which rounds to 6 in doubles;
  the table index is 6 and \<^verbatim>\<open>assert(idx >= 0 && idx <= 5)\<close> fails inside the first
  edge.
\<close>

theorem HSL_to_RGB_fails_hue_assertion:
  "color_convert 7 \<lparr>type = COLOR_RGB, extra = 0, payload = D3 1 (1 / 2) (1 / 2 + 1 / 2 ^ 53)\<rparr>
       COLOR_HSL 0
     = Some (Inr (\<lparr>type = COLOR_HSL, extra = 0, payload = D3 (- (1 / 2 ^ 52)) 1 (3 / 4)\<rparr>,
                  [(COLOR_RGB, COLOR_HSL)]))
   \<and> color_convert 7 \<lparr>type = COLOR_HSL, extra = 0, payload = D3 (- (1 / 2 ^ 52)) 1 (3 / 4)\<rparr>
       COLOR_RGB 0
     = Some (Inl Assert_hue_idx)"
proof -
  have "to_int 6 = 6"
    by (simp add: to_int_def)
  then show ?thesis
    using hue_wraps_to_six
    by (simp add: color_convert_def eval_nat_numeral convert_step_def valid_type_def
        g_descriptors_def desc_RGB_def desc_HSL_def color_RGB_to_HSL_def rgb_min_def
        rgb_max_def rgb_hue_def color_HSL_to_RGB_def finish_HSL_to_RGB_def Let_def)
qed

text \<open>
  Claim C2, as amended. Take a value whose tag is a valid space, that is laid out as its
  tag says, and whose flags byte is zero unless its space is YUV or YCbCr; take a valid
  target space and target flags that are zero unless the target is YUV or YCbCr. Then
  \<^verbatim>\<open>color_convert\<close> ends within seven passes of its loop: it returns having applied
  at most seven edges, not at most three, or it stops at the index assertion of
  \<^verbatim>\<open>finish_HSL_to_RGB\<close>.
\<close>

theorem color_convert_hop_bound:
  assumes "valid_type (type c)" "layout_ok c" "settled (type c) (extra c)"
    and "valid_type new_type" "settled new_type new_extra" "7 \<le> fuel"
  shows "(\<exists>c' hops. color_convert fuel c new_type new_extra = Some (Inr (c', hops))
            \<and> length hops \<le> 7)
         \<or> color_convert fuel c new_type new_extra = Some (Inl Assert_hue_idx)"
  using reach [OF assms(1-5)]
proof (elim disjE exE conjE)
  fix c' hops
  assume r: "convert_loop 7 c new_type new_extra [] = Some (Inr (c', hops))"
    "type c' = new_type" "length hops \<le> 7"
  from convert_loop_fuel_le [OF r(1) assms(6)]
  have "color_convert fuel c new_type new_extra = Some (Inr (c', hops))"
    using assms(4) r(2) by (simp add: color_convert_def)
  with r(3) show ?thesis by blast
next
  assume "convert_loop 7 c new_type new_extra [] = Some (Inl Assert_hue_idx)"
  from convert_loop_fuel_le [OF this assms(6)]
  have "color_convert fuel c new_type new_extra = Some (Inl Assert_hue_idx)"
    using assms(4) by (simp add: color_convert_def)
  then show ?thesis by blast
qed

theorem color_convert_hop_bound_witness:
  "(\<exists>c' hops.
      color_convert 9 \<lparr>type = COLOR_HSV, extra = 0, payload = D3 1 0.5 0.5\<rparr> COLOR_YCBCR 6
        = Some (Inr (c', hops))
      \<and> length hops \<le> 7)
   \<or> color_convert 9 \<lparr>type = COLOR_HSV, extra = 0, payload = D3 1 0.5 0.5\<rparr> COLOR_YCBCR 6
        = Some (Inl Assert_hue_idx)"
  using color_convert_hop_bound
    [of "\<lparr>type = COLOR_HSV, extra = 0, payload = D3 1 0.5 0.5\<rparr>" COLOR_YCBCR 6 9]
  by (simp add: valid_type_def layout_ok_def settled_def)

text \<open>
  Claim C2 as stated fails: a YCbCr value asked to become LSHuv is taken through YUV,
  RGB, linear RGB, XYZ, Luv and LCHuv, seven edges in all.
\<close>

theorem color_convert_hops_counterexample:
  "hops_of (color_convert 7 \<lparr>type = COLOR_YCBCR, extra = 0, payload = B3 128 128 128\<rparr>
              COLOR_LSHUV 0)
     = Some [(COLOR_YCBCR, COLOR_YUV), (COLOR_YUV, COLOR_RGB), (COLOR_RGB, COLOR_LINEAR_RGB),
             (COLOR_LINEAR_RGB, COLOR_XYZ), (COLOR_XYZ, COLOR_LUV), (COLOR_LUV, COLOR_LCHUV),
             (COLOR_LCHUV, COLOR_LSHUV)]
   \<and> \<not> (case hops_of (color_convert 7
                \<lparr>type = COLOR_YCBCR, extra = 0, payload = B3 128 128 128\<rparr> COLOR_LSHUV 0) of
           None \<Rightarrow> False
         | Some hops \<Rightarrow> length hops \<le> 3)"
proof -
  have "layout_ok \<lparr>type = COLOR_YCBCR, extra = 0, payload = B3 128 128 128\<rparr>"
    by (simp add: layout_ok_def)
  then show ?thesis
    by (simp add: color_convert_def hops_of_def eval_nat_numeral step_simps)
qed

text \<open>
  Claim C4. A value that already has the requested tag and flags is returned as it is,
  whatever the fuel: the loop body is not entered, so no edge is applied, the self-edges
  included.
\<close>

theorem color_convert_noop:
  "valid_type new_type \<Longrightarrow> type c = new_type \<Longrightarrow> extra c = new_extra \<Longrightarrow>
   color_convert fuel c new_type new_extra = Some (Inr (c, []))"
  by (cases fuel) (simp_all add: color_convert_def)

theorem color_convert_noop_witness:
  "color_convert 0 \<lparr>type = COLOR_YUV, extra = 1, payload = D3 0.5 0 0\<rparr> COLOR_YUV 1
     = Some (Inr (\<lparr>type = COLOR_YUV, extra = 1, payload = D3 0.5 0 0\<rparr>, []))"
  using color_convert_noop
    [of COLOR_YUV "\<lparr>type = COLOR_YUV, extra = 1, payload = D3 0.5 0 0\<rparr>" 1 0]
  by (simp add: valid_type_def)

section \<open>The self-edge and the flags byte\<close>

lemma color_RGB_to_YUV_sets_flags: "color_RGB_to_YUV c e = Inr c' \<Longrightarrow> extra c' = e"
  by (auto simp: color_RGB_to_YUV_def Let_def split: if_splits payload.splits)

lemma color_YUV_to_YUV_composition:
  "color_YUV_to_YUV c e =
     (if type c \<noteq> COLOR_YUV then Inl (Assert_type COLOR_YUV)
      else if extra c = e then Inl (Assert_flags_differ COLOR_YUV)
      else case color_YUV_to_RGB c e of
             Inl err \<Rightarrow> Inl err
           | Inr c1 \<Rightarrow> color_RGB_to_YUV c1 e)"
  by (auto simp: color_YUV_to_YUV_def dest: color_RGB_to_YUV_sets_flags split: sum.splits)

lemma color_YUV_to_YUV_601_709:
  "color_YUV_to_YUV \<lparr>type = COLOR_YUV, extra = COLOR_YUV_MAT_REC601, payload = D3 Y U V\<rparr>
       COLOR_YUV_MAT_REC709 =
     (let R = Y + V * (701 / 615);
          G = Y + U * (- 25251 / 63983) + V * (- 209599 / 361005);
          B = Y + U * (443 / 218)
      in Inr \<lparr>type = COLOR_YUV, extra = COLOR_YUV_MAT_REC709,
               payload = D3 (R * 0.2126 + G * 0.7152 + B * 0.0722)
                            (R * (- 115867 / 1159750) + G * (- 194892 / 579875) + B * 0.436)
                            (R * 0.615 + G * (- 54981 / 98425) + B * (- 44403 / 787400))\<rparr>)"
  by (simp add: color_YUV_to_YUV_composition color_YUV_to_RGB_def color_RGB_to_YUV_def
      COLOR_YUV_MAT_REC601_def COLOR_YUV_MAT_REC709_def COLOR_YUV_MAT_MASK_def
      yuv_to_rgb_def rgb_to_yuv_def Let_def)

text \<open>
  Claim C5. The YUV self-edge is the YUV to RGB edge, which reads the matrix of the
  value's own flags, followed by the RGB to YUV edge under the target flags, and nothing
  else. In no run of \<^verbatim>\<open>color_convert\<close> on a value laid out as its tag says does the
  self-edge's assertion that the flags differ fail. Taking a Rec.601 value to Rec.709
  gives the Rec.709 matrix applied to the RGB triple that the Rec.601 inverse matrix
  reconstructs.
\<close>

theorem YUV_self_edge:
  "color_YUV_to_YUV c e =
     (if type c \<noteq> COLOR_YUV then Inl (Assert_type COLOR_YUV)
      else if extra c = e then Inl (Assert_flags_differ COLOR_YUV)
      else case color_YUV_to_RGB c e of
             Inl err \<Rightarrow> Inl err
           | Inr c1 \<Rightarrow> color_RGB_to_YUV c1 e)
   \<and> (layout_ok c0 \<longrightarrow>
        color_convert fuel c0 new_type new_extra \<noteq> Some (Inl (Assert_flags_differ COLOR_YUV)))
   \<and> color_YUV_to_YUV \<lparr>type = COLOR_YUV, extra = COLOR_YUV_MAT_REC601, payload = D3 Y U V\<rparr>
       COLOR_YUV_MAT_REC709 =
     (let R = Y + V * (701 / 615);
          G = Y + U * (- 25251 / 63983) + V * (- 209599 / 361005);
          B = Y + U * (443 / 218)
      in Inr \<lparr>type = COLOR_YUV, extra = COLOR_YUV_MAT_REC709,
               payload = D3 (R * 0.2126 + G * 0.7152 + B * 0.0722)
                            (R * (- 115867 / 1159750) + G * (- 194892 / 579875) + B * 0.436)
                            (R * 0.615 + G * (- 54981 / 98425) + B * (- 44403 / 787400))\<rparr>)"
proof (intro conjI impI)
  show "color_YUV_to_YUV c e =
     (if type c \<noteq> COLOR_YUV then Inl (Assert_type COLOR_YUV)
      else if extra c = e then Inl (Assert_flags_differ COLOR_YUV)
      else case color_YUV_to_RGB c e of
             Inl err \<Rightarrow> Inl err
           | Inr c1 \<Rightarrow> color_RGB_to_YUV c1 e)"
    by (rule color_YUV_to_YUV_composition)
next
  assume l: "layout_ok c0"
  show "color_convert fuel c0 new_type new_extra \<noteq> Some (Inl (Assert_flags_differ COLOR_YUV))"
  proof
    assume a: "color_convert fuel c0 new_type new_extra
      = Some (Inl (Assert_flags_differ COLOR_YUV))"
    then have v: "valid_type new_type"
      by (auto simp: color_convert_def split: if_splits)
    from a v have
      "convert_loop fuel c0 new_type new_extra [] = Some (Inl (Assert_flags_differ COLOR_YUV))"
      by (auto simp: color_convert_def split: option.splits sum.splits if_splits)
    from loop_errors [OF l v this] show False by simp
  qed
next
  show "color_YUV_to_YUV \<lparr>type = COLOR_YUV, extra = COLOR_YUV_MAT_REC601, payload = D3 Y U V\<rparr>
       COLOR_YUV_MAT_REC709 =
     (let R = Y + V * (701 / 615);
          G = Y + U * (- 25251 / 63983) + V * (- 209599 / 361005);
          B = Y + U * (443 / 218)
      in Inr \<lparr>type = COLOR_YUV, extra = COLOR_YUV_MAT_REC709,
               payload = D3 (R * 0.2126 + G * 0.7152 + B * 0.0722)
                            (R * (- 115867 / 1159750) + G * (- 194892 / 579875) + B * 0.436)
                            (R * 0.615 + G * (- 54981 / 98425) + B * (- 44403 / 787400))\<rparr>)"
    by (rule color_YUV_to_YUV_601_709)
qed

theorem YUV_self_edge_witness:
  "hops_of (color_convert 1 \<lparr>type = COLOR_YUV, extra = 0, payload = D3 0.5 0 0\<rparr> COLOR_YUV 1)
     = Some [(COLOR_YUV, COLOR_YUV)]
   \<and> color_convert 1 \<lparr>type = COLOR_YUV, extra = 0, payload = D3 0.5 0 0\<rparr> COLOR_YUV 1
       \<noteq> Some (Inl (Assert_flags_differ COLOR_YUV))"
proof -
  have l: "layout_ok \<lparr>type = COLOR_YUV, extra = 0, payload = D3 0.5 0 0\<rparr>"
    by (simp add: layout_ok_def)
  have "hops_of (color_convert 1 \<lparr>type = COLOR_YUV, extra = 0, payload = D3 0.5 0 0\<rparr> COLOR_YUV 1)
     = Some [(COLOR_YUV, COLOR_YUV)]"
    using l by (simp add: color_convert_def hops_of_def step_simps)
  with YUV_self_edge [where ?c0.0 = "\<lparr>type = COLOR_YUV, extra = 0, payload = D3 0.5 0 0\<rparr>"
      and fuel = 1 and new_type = COLOR_YUV and new_extra = 1] l
  show ?thesis
    by simp
qed


lemma plain_mask: "meaningful_mask t = 0 \<Longrightarrow> flags_canonical c \<Longrightarrow> type c = t \<Longrightarrow> extra c = 0"
  by (simp add: flags_canonical_def)
























section \<open>The YCbCr rescale\<close>

text \<open>
  Claim C3. In studio range the claim has chroma land in \<open>[16, 240]\<close>. The source adds
  144 to the scaled chroma, not 128 and the rounding half, so the chroma of a YUV value
  well inside the normalised range comes out above 240: Y = 0.5, U = 0.4, V = 0.6 under
  Rec.601 studio range becomes Y = 126, Cb = 246, Cr = 253.
\<close>

theorem YUV_to_YCbCr_studio_chroma_above_240:
  "color_YUV_to_YCbCr \<lparr>type = COLOR_YUV, extra = 0, payload = D3 0.5 0.4 0.6\<rparr> 0
     = Inr \<lparr>type = COLOR_YCBCR, extra = 0, payload = B3 126 246 253\<rparr>"
  by (simp add: color_YUV_to_YCbCr_def COLOR_YUV_MAT_MASK_def COLOR_YCBCR_FULL_RANGE_def
      clamp_u8_def to_u8_def to_int_def)

end
